theory Spec2Isabelle
  imports Main "HOL-Library.Sublist"
begin

section \<open>Python strings and sequences\<close>

text \<open>
  A \<open>str\<close> is kept as its UTF-8 encoding, a value of type \<open>string\<close> with one \<open>char\<close> for
  each byte. The accented letters of the fixed Portuguese message texts are written as
  their two bytes, through the abbreviations below. \<open>x in s\<close> on strings is
  \<^const>\<open>sublist\<close>, \<open>s.startswith(x)\<close> is \<^const>\<open>prefix\<close> and \<open>s.endswith(x)\<close> is
  \<^const>\<open>suffix\<close>; on encoded text they agree with the operations on characters.
\<close>

abbreviation (input) u_AA_circumflex :: string where "u_AA_circumflex \<equiv> [CHR 0xC3, CHR 0x82]"
abbreviation (input) u_AA_tilde :: string where "u_AA_tilde \<equiv> [CHR 0xC3, CHR 0x83]"
abbreviation (input) u_CC_cedilla :: string where "u_CC_cedilla \<equiv> [CHR 0xC3, CHR 0x87]"
abbreviation (input) u_EE_acute :: string where "u_EE_acute \<equiv> [CHR 0xC3, CHR 0x89]"
abbreviation (input) u_OO_tilde :: string where "u_OO_tilde \<equiv> [CHR 0xC3, CHR 0x95]"
abbreviation (input) u_a_acute :: string where "u_a_acute \<equiv> [CHR 0xC3, CHR 0xA1]"
abbreviation (input) u_a_circumflex :: string where "u_a_circumflex \<equiv> [CHR 0xC3, CHR 0xA2]"
abbreviation (input) u_a_grave :: string where "u_a_grave \<equiv> [CHR 0xC3, CHR 0xA0]"
abbreviation (input) u_a_tilde :: string where "u_a_tilde \<equiv> [CHR 0xC3, CHR 0xA3]"
abbreviation (input) u_c_cedilla :: string where "u_c_cedilla \<equiv> [CHR 0xC3, CHR 0xA7]"
abbreviation (input) u_e_acute :: string where "u_e_acute \<equiv> [CHR 0xC3, CHR 0xA9]"
abbreviation (input) u_e_circumflex :: string where "u_e_circumflex \<equiv> [CHR 0xC3, CHR 0xAA]"
abbreviation (input) u_i_acute :: string where "u_i_acute \<equiv> [CHR 0xC3, CHR 0xAD]"
abbreviation (input) u_o_acute :: string where "u_o_acute \<equiv> [CHR 0xC3, CHR 0xB3]"
abbreviation (input) u_o_circumflex :: string where "u_o_circumflex \<equiv> [CHR 0xC3, CHR 0xB4]"
abbreviation (input) u_o_tilde :: string where "u_o_tilde \<equiv> [CHR 0xC3, CHR 0xB5]"
abbreviation (input) u_u_acute :: string where "u_u_acute \<equiv> [CHR 0xC3, CHR 0xBA]"

text \<open>
  \<open>s.lower()\<close>. On a string of ASCII characters it turns the letters \<open>A\<close> to \<open>Z\<close> into
  \<open>a\<close> to \<open>z\<close>. On any other string the result is fixed by the case mappings of the
  Unicode database of the interpreter, which is taken as the parameter \<open>to_lower\<close>.
\<close>

definition lower_char :: "char \<Rightarrow> char" where
  "lower_char c =
     (let n = (of_char c :: nat) in if 65 \<le> n \<and> n \<le> 90 then char_of (n + 32) else c)"

definition is_ascii :: "string \<Rightarrow> bool" where
  "is_ascii s = list_all (\<lambda>c. (of_char c :: nat) < 128) s"

definition lower :: "(string \<Rightarrow> string) \<Rightarrow> string \<Rightarrow> string" where
  "lower to_lower s = (if is_ascii s then map lower_char s else to_lower s)"

text \<open>\<open>s.replace(c, r)\<close> for a pattern \<open>c\<close> of one character.\<close>

definition replace_char :: "char \<Rightarrow> string \<Rightarrow> string \<Rightarrow> string" where
  "replace_char c r s = concat (map (\<lambda>x. if x = c then r else [x]) s)"

text \<open>
  The characters of a string: in the encoding each character is one byte that is not a
  continuation byte, followed by its continuation bytes (\<open>0x80\<close> to \<open>0xBF\<close>). \<open>len(s)\<close>
  counts the characters and \<open>s[:n]\<close> keeps the first \<open>n\<close> of them.
\<close>

definition is_continuation :: "char \<Rightarrow> bool" where
  "is_continuation c = (let n = (of_char c :: nat) in 128 \<le> n \<and> n < 192)"

function characters :: "string \<Rightarrow> string list" where
  "characters [] = []"
| "characters (c # cs) =
     (c # takeWhile is_continuation cs) # characters (dropWhile is_continuation cs)"
  by pat_completeness auto
termination
proof (relation "measure length")
  show "wf (measure length)"
    by simp
next
  fix c :: char and cs :: string
  have "length (dropWhile is_continuation cs) \<le> length cs"
    by (rule length_dropWhile_le)
  then show "(dropWhile is_continuation cs, c # cs) \<in> measure length"
    by simp
qed

definition len :: "string \<Rightarrow> nat" where
  "len s = length (characters s)"

definition first_chars :: "nat \<Rightarrow> string \<Rightarrow> string" where
  "first_chars n s = concat (take n (characters s))"

text \<open>
  \<open>s.strip()\<close> removes the white space at both ends: the characters for which
  \<open>str.isspace\<close> holds. These are the ASCII characters 9 to 13 and 28 to 32, and
  \<open>U+0085\<close>, \<open>U+00A0\<close>, \<open>U+1680\<close>, \<open>U+2000\<close> to \<open>U+200A\<close>, \<open>U+2028\<close>, \<open>U+2029\<close>,
  \<open>U+202F\<close>, \<open>U+205F\<close> and \<open>U+3000\<close>, listed here by their encodings.
\<close>

definition is_space_char :: "char \<Rightarrow> bool" where
  "is_space_char c =
     (let n = (of_char c :: nat) in (9 \<le> n \<and> n \<le> 13) \<or> (28 \<le> n \<and> n \<le> 32))"

definition unicode_whitespace :: "string list" where
  "unicode_whitespace =
     [[CHR 0xC2, CHR 0x85], [CHR 0xC2, CHR 0xA0], [CHR 0xE1, CHR 0x9A, CHR 0x80]] @
     map (\<lambda>n. [CHR 0xE2, CHR 0x80, char_of n]) [128 ..< 139 :: nat] @
     [[CHR 0xE2, CHR 0x80, CHR 0xA8], [CHR 0xE2, CHR 0x80, CHR 0xA9],
      [CHR 0xE2, CHR 0x80, CHR 0xAF], [CHR 0xE2, CHR 0x81, CHR 0x9F],
      [CHR 0xE3, CHR 0x80, CHR 0x80]]"

definition isspace :: "string \<Rightarrow> bool" where
  "isspace ch = (case ch of [c] \<Rightarrow> is_space_char c | _ \<Rightarrow> ch \<in> set unicode_whitespace)"

definition strip :: "string \<Rightarrow> string" where
  "strip s = concat (rev (dropWhile isspace (rev (dropWhile isspace (characters s)))))"

text \<open>\<open>s.split(c)\<close> for a separator of one character: the empty string gives one empty piece.\<close>

fun split_on :: "char \<Rightarrow> string \<Rightarrow> string list" where
  "split_on c [] = [[]]"
| "split_on c (x # xs) =
     (if x = c then [] # split_on c xs
      else (case split_on c xs of [] \<Rightarrow> [[x]] | l # ls \<Rightarrow> (x # l) # ls))"

text \<open>\<open>sep.join(xs)\<close>.\<close>

fun join :: "string \<Rightarrow> string list \<Rightarrow> string" where
  "join sep [] = []"
| "join sep [x] = x"
| "join sep (x # y # ys) = x @ sep @ join sep (y # ys)"

text \<open>
  \<open>xs[i]\<close>: a negative index counts from the end, an index out of range raises
  \<open>IndexError\<close> (here \<open>None\<close>). \<open>xs[i:j]\<close>: each bound is first brought into the range
  \<open>0 .. len(xs)\<close>, a negative one counting from the end.
\<close>

definition py_index :: "'a list \<Rightarrow> int \<Rightarrow> 'a option" where
  "py_index xs i =
     (if 0 \<le> i \<and> i < int (length xs) then Some (xs ! nat i)
      else if i < 0 \<and> - int (length xs) \<le> i then Some (xs ! nat (int (length xs) + i))
      else None)"

definition slice_bound :: "nat \<Rightarrow> int \<Rightarrow> nat" where
  "slice_bound n i = (if i < 0 then nat (max 0 (int n + i)) else min (nat i) n)"

definition py_slice :: "'a list \<Rightarrow> int \<Rightarrow> int \<Rightarrow> 'a list" where
  "py_slice xs i j =
     (let lo = slice_bound (length xs) i; hi = slice_bound (length xs) j
      in take (hi - lo) (drop lo xs))"

text \<open>\<open>str(n)\<close> for an integer, in decimal.\<close>

fun str_nat :: "nat \<Rightarrow> string" where
  "str_nat n =
     (if n < 10 then [''0123456789'' ! n]
      else str_nat (n div 10) @ [''0123456789'' ! (n mod 10)])"

definition str_int :: "int \<Rightarrow> string" where
  "str_int i = (if i < 0 then ''-'' @ str_nat (nat (- i)) else str_nat (nat i))"

section \<open>Exceptions\<close>

text \<open>
  A raised exception: its class as far as the handlers of the code tell classes apart, the
  text \<open>str(e)\<close> and the text \<open>traceback.format_exc()\<close> gives in its handler.
  \<open>BaseException\<close> stands for the exceptions that are not instances of \<open>Exception\<close>
  (\<open>SystemExit\<close>, \<open>KeyboardInterrupt\<close>): an \<open>except Exception\<close> clause lets them pass.
\<close>

datatype exc_class = SyntaxError | ImportError | IndexError | Exception | BaseException

datatype raised = Raised (exc_class: exc_class) (exc_str: string) (exc_tb: string)

definition is_Exception :: "raised \<Rightarrow> bool" where
  "is_Exception e = (exc_class e \<noteq> BaseException)"

section \<open>Python syntax trees\<close>

text \<open>
  The nodes of the \<open>ast\<close> module that the code builds or inspects. A constant holds a
  Python value; a float is kept as a pair of integers (mantissa and exponent), so that
  \<open>0.0\<close> is \<open>VFloat 0 0\<close> and is not the integer \<open>VInt 0\<close>. \<open>OtherExpr\<close> and
  \<open>OtherStmt\<close> stand for the node classes that the code never names; \<open>OtherStmt\<close> keeps
  the child nodes, in the order \<open>ast.iter_child_nodes\<close> yields them.
  Of \<open>ast.arguments\<close> the code only fills \<open>args\<close> and \<open>defaults\<close>, of \<open>ast.FunctionDef\<close>
  and \<open>ast.ClassDef\<close> it leaves \<open>decorator_list\<close> and \<open>keywords\<close> empty.
\<close>

datatype pyval =
    VNone
  | VBool bool
  | VInt int
  | VFloat int int
  | VStr string
  | VEllipsis
  | VList "pyval list"
  | VDict "(pyval \<times> pyval) list"

datatype cmpop = Eq | OtherOp

datatype expr =
    Constant pyval
  | Name string
  | ListE "expr list"
  | TupleE "expr list"
  | DictE "expr list" "expr list"
  | Call expr "expr list" "(string \<times> expr) list"
  | Attribute expr string
  | Subscript expr expr
  | JoinedStr "expr list"
  | FormattedValue expr int
  | Compare expr "cmpop list" "expr list"
  | OtherExpr

datatype arg = Arg string "expr option"

datatype arguments = Arguments (args: "arg list") (defaults: "expr list")

datatype stmt =
    Expr expr
  | Assign "expr list" expr
  | AnnAssign expr expr "expr option"
  | Return "expr option"
  | Pass
  | FunctionDef string arguments "stmt list" "expr option"
  | ClassDef string "expr list" "stmt list"
  | If expr "stmt list" "stmt list"
  | OtherStmt "stmt list"

text \<open>
  \<open>ast.parse\<close> is the interpreter's parser, not code of the repository: the model takes it
  as a function from source text to its outcome. A syntax error carries the line number,
  the column offset and the message of the \<open>SyntaxError\<close> object. \<open>SyntaxErrNoLine\<close> is a
  \<open>SyntaxError\<close> whose \<open>lineno\<close> is \<open>None\<close>, raised before any line is read (as for a
  source text with a null byte), with its message. \<open>ParseRaises\<close> is any exception that
  is not a \<open>SyntaxError\<close>.
\<close>

record syntax_error =
  lineno :: int
  offset :: int
  msg :: string

datatype parse_result =
    Module "stmt list"
  | SyntaxErr syntax_error
  | SyntaxErrNoLine string
  | ParseRaises raised

text \<open>
  \<open>ast.walk\<close> yields the nodes breadth-first: it takes the first node of a queue and appends
  its children. Expressions hold no statement, so the walk over the statements alone keeps
  the order in which the statements are yielded.
\<close>

fun child_nodes :: "stmt \<Rightarrow> stmt list" where
  "child_nodes (FunctionDef n a body r) = body"
| "child_nodes (ClassDef n bases body) = body"
| "child_nodes (If t body orelse) = body @ orelse"
| "child_nodes (OtherStmt cs) = cs"
| "child_nodes s = []"

function walk :: "stmt list \<Rightarrow> stmt list" where
  "walk [] = []"
| "walk (n # todo) = n # walk (todo @ child_nodes n)"
  by pat_completeness auto
termination
proof (relation "measure (\<lambda>todo. sum_list (map size todo) + length todo)")
  show "wf (measure (\<lambda>todo. sum_list (map size todo) + length todo))"
    by simp
next
  fix n :: stmt and todo :: "stmt list"
  have "sum_list (map size (child_nodes n)) + length (child_nodes n) \<le> size n"
    by (cases n) (simp_all add: size_list_conv_sum_list)
  then show "(todo @ child_nodes n, n # todo)
      \<in> measure (\<lambda>todo. sum_list (map size todo) + length todo)"
    by simp
qed

section \<open>ToolVerifierTool: data\<close>

text \<open>
  \<open>tools/verificador/tool_verifier.py\<close>. A \<open>pathlib.Path\<close> is kept with the attributes the
  verifier reads: \<open>str(p)\<close>, \<open>p.suffix\<close>, \<open>p.stem\<close> and \<open>str(p.parent.resolve())\<close>.
\<close>

record path =
  path_str :: string
  path_suffix :: string
  path_stem :: string
  path_parent :: string

text \<open>
  What the interpreter shows of a loaded module. An attribute that the verifier expects to
  be a string is absent, present but not a \<open>str\<close>, or a string. The attribute
  \<open>args_schema\<close> is absent, present but not a subclass of \<open>BaseModel\<close> (kept with the text
  of its type), or a model class with its \<open>__name__\<close> and the outcome of
  \<open>model_json_schema()\<close>: an exception, or whether the schema is non-empty and has the key
  \<open>properties\<close>; \<open>FalsyModel\<close> is a model class whose truth value is false, with its
  \<open>__name__\<close> and the text of its type. A class is kept with \<open>issubclass(obj, BaseTool)\<close>,
  with whether it has a callable \<open>_run\<close>, and with the outcome of calling it without
  arguments. A class and an instance are kept with the outcome of \<open>bool\<close> on them, which
  the tests \<open>if res.tool_class\<close> and \<open>if res.tool_instance\<close> call: it is true unless
  \<open>__bool__\<close> or \<open>__len__\<close> is defined and says otherwise, and it can raise.
\<close>

datatype attr = NoAttr | NotStr | StrAttr string

datatype schema_attr =
    NoSchema
  | NotModel string
  | ModelClass string "raised + bool"
  | FalsyModel string string

record tool_inst =
  inst_name :: attr
  inst_description :: attr
  inst_args_schema :: schema_attr
  inst_truth :: "raised + bool"

record cls =
  cls_is_BaseTool :: bool
  cls_run_callable :: bool
  cls_construct :: "raised + tool_inst"
  cls_truth :: "raised + bool"

datatype pyobj = ClassObj cls | OtherObj

text \<open>
  The file system and the interpreter, as far as the verifier calls them: \<open>Path.exists\<close>,
  \<open>Path.is_file\<close> and \<open>Path.read_text\<close> by the path's text; \<open>ast.parse\<close>;
  \<open>load_spec\<close> for \<open>spec_from_file_location\<close> followed by \<open>module_from_spec\<close>
  (\<open>Inr False\<close> when the spec or its loader is \<open>None\<close>); \<open>exec_module\<close>, which runs the
  top-level code of the file on the current \<open>sys.path\<close> and gives the exception it raised,
  if any, and the \<open>sys.path\<close> it leaves; \<open>getmembers\<close> for \<open>inspect.getmembers\<close> of the
  loaded module. \<open>unicode_lower\<close> is \<open>str.lower\<close> on the strings that are not ASCII.
\<close>

record world =
  path_exists :: "string \<Rightarrow> bool"
  path_is_file :: "string \<Rightarrow> bool"
  read_text :: "string \<Rightarrow> raised + string"
  ast_parse :: "string \<Rightarrow> parse_result"
  load_spec :: "string \<Rightarrow> string \<Rightarrow> raised + bool"
  exec_module :: "string \<Rightarrow> string list \<Rightarrow> raised option \<times> string list"
  getmembers :: "string \<Rightarrow> raised + (string \<times> pyobj) list"
  unicode_lower :: "string \<Rightarrow> string"

text \<open>
  \<open>_ToolAnalysisResult\<close>. The fields \<open>ast_tree\<close>, \<open>module\<close> and \<open>found_args_schema_name\<close>
  are written but never read outside the method that writes them, and are left out.
\<close>

record analysis =
  tool_path :: path
  errors :: "string list"
  warnings :: "string list"
  info :: "string list"
  tool_class_name :: "string option"
  tool_class :: "cls option"
  tool_instance :: "tool_inst option"
  error_components :: "string set"

definition new_analysis :: "path \<Rightarrow> analysis" where
  "new_analysis p =
     \<lparr>tool_path = p, errors = [], warnings = [], info = [], tool_class_name = None,
      tool_class = None, tool_instance = None, error_components = {}\<rparr>"

text \<open>
  \<open>add_error\<close>, \<open>add_warning\<close>, \<open>add_info\<close>. The test \<open>if component:\<close> fails for \<open>None\<close>
  and for the empty string.
\<close>

definition add_error :: "string \<Rightarrow> string option \<Rightarrow> analysis \<Rightarrow> analysis" where
  "add_error message component res =
     (case component of
        Some c \<Rightarrow>
          if c \<noteq> [] then
            res\<lparr>error_components := insert c (error_components res),
                errors := errors res @
                  [''ERRO NO COMPONENTE: '' @ c @ ''\<newline>'' @ replicate 40 CHR ''-'' @ ''\<newline>'' @
                   ''Problema: '' @ message]\<rparr>
          else res\<lparr>errors := errors res @ [''ERRO: '' @ message]\<rparr>
      | None \<Rightarrow> res\<lparr>errors := errors res @ [''ERRO: '' @ message]\<rparr>)"

definition add_warning :: "string \<Rightarrow> string option \<Rightarrow> analysis \<Rightarrow> analysis" where
  "add_warning message component res =
     (case component of
        Some c \<Rightarrow>
          if c \<noteq> [] then
            res\<lparr>warnings := warnings res @
                  [''AVISO NO COMPONENTE: '' @ c @ ''\<newline>'' @ replicate 40 CHR ''-'' @ ''\<newline>'' @
                   (''Aten'' @ u_c_cedilla @ u_a_tilde @ ''o: '') @ message @ ''\<newline>'']\<rparr>
          else res\<lparr>warnings := warnings res @ [''AVISO: '' @ message]\<rparr>
      | None \<Rightarrow> res\<lparr>warnings := warnings res @ [''AVISO: '' @ message]\<rparr>)"

definition add_info :: "string \<Rightarrow> analysis \<Rightarrow> analysis" where
  "add_info message res = res\<lparr>info := info res @ [''INFO: '' @ message]\<rparr>"

text \<open>The dictionary that \<open>run\<close> returns, built by \<open>_build_result_dict\<close>.\<close>

record report =
  sucesso :: bool
  erros :: "string list"
  avisos :: "string list"
  infos :: "string list"
  report_tool_path :: "string option"
  report_tool_class_name :: "string option"

definition build_result_dict :: "analysis \<Rightarrow> report" where
  "build_result_dict res =
     \<lparr>sucesso = (errors res = []),
      erros = errors res,
      avisos = warnings res,
      infos = info res,
      report_tool_path = Some (path_str (tool_path res)),
      report_tool_class_name = tool_class_name res\<rparr>"

section \<open>ToolVerifierTool: the static stage\<close>

text \<open>
  \<open>_identificar_componente_com_erro\<close>: the component that a syntax error is attributed to,
  with its entry in \<open>MAPEAMENTO_COMPONENTES\<close>. The read \<open>linhas[linha_atual]\<close> raises
  \<open>IndexError\<close> when the line number is beyond the lines of the file.
\<close>

definition MAPEAMENTO_COMPONENTES :: "(string \<times> string) list" where
  "MAPEAMENTO_COMPONENTES =
     [((''M'' @ u_e_acute @ ''todo _run''), (''implementa'' @ u_c_cedilla @ u_a_tilde @ ''o do m'' @ u_e_acute @ ''todo _run'')),
      (''Atributos da Classe'', (''defini'' @ u_c_cedilla @ u_a_tilde @ ''o dos atributos da classe'')),
      (''Schema de Entrada'', (''defini'' @ u_c_cedilla @ u_a_tilde @ ''o dos par'' @ u_a_circumflex @ ''metros'')),
      ((''Heran'' @ u_c_cedilla @ ''a de Classe''), ''estrutura da classe''),
      (''Estrutura Python'', ''sintaxe Python''),
      (''Imports'', (''importa'' @ u_c_cedilla @ u_o_tilde @ ''es'')),
      ((''M'' @ u_e_acute @ ''todos Customizados''), (''m'' @ u_e_acute @ ''todos personalizados''))]"

definition componente_of_line ::
    "(string \<Rightarrow> string) \<Rightarrow> string list \<Rightarrow> int \<Rightarrow> string \<Rightarrow> string" where
  "componente_of_line to_lower linhas linha_atual linha_atual_str =
     (let janela = py_slice linhas (max 0 (linha_atual - 5))
                     (min (int (length linhas)) (linha_atual + 5))
      in if sublist ''_run'' (concat janela) then (''M'' @ u_e_acute @ ''todo _run'')
         else if sublist ''class'' linha_atual_str
                 \<and> (sublist ''Tool'' linha_atual_str \<or> sublist ''BaseTool'' linha_atual_str)
           then (''Heran'' @ u_c_cedilla @ ''a de Classe'')
         else if sublist ''BaseModel'' linha_atual_str
                 \<or> list_ex (\<lambda>linha. sublist ''Field('' linha) janela
           then ''Schema de Entrada''
         else if list_ex (\<lambda>attr. sublist attr linha_atual_str)
                   [''name'', ''description'', ''args_schema'']
           then ''Atributos da Classe''
         else if sublist ''import'' (lower to_lower linha_atual_str)
                 \<or> sublist ''from'' (lower to_lower linha_atual_str)
           then ''Imports''
         else if sublist ''def'' linha_atual_str \<and> \<not> sublist ''_run'' linha_atual_str
           then (''M'' @ u_e_acute @ ''todos Customizados'')
         else ''Estrutura Python'')"

definition identificar_componente_com_erro ::
    "(string \<Rightarrow> string) \<Rightarrow> string \<Rightarrow> int \<Rightarrow> raised + string \<times> string" where
  "identificar_componente_com_erro to_lower source_code linha_erro =
     (let linhas = split_on CHR ''\<newline>'' source_code;
          linha_atual = linha_erro - 1
      in case py_index linhas linha_atual of
           None \<Rightarrow> Inl (Raised IndexError ''list index out of range'' [])
         | Some l \<Rightarrow>
             (let componente = componente_of_line to_lower linhas linha_atual (strip l)
              in case map_of MAPEAMENTO_COMPONENTES componente of
                   Some d \<Rightarrow> Inr (componente, d)
                 | None \<Rightarrow> Inl (Raised Exception componente [])))"

text \<open>
  The handler of \<open>SyntaxError\<close> in \<open>_verify_ast\<close>: the messages it adds for a syntax error
  in the source text. Each part is added by a call of \<open>add_error\<close> of its own.
\<close>

definition sugestao :: "string \<Rightarrow> string" where
  "sugestao m =
     (if m = ''expected '' @ [CHR 0x27] @ '':'' @ [CHR 0x27]
        then (''Sugest'' @ u_a_tilde @ ''o: Adicione dois pontos (:) ao final da linha'')
      else if sublist ''unexpected EOF'' m
        then (''Sugest'' @ u_a_tilde @ ''o: Verifique par'' @ u_e_circumflex @ ''nteses/colchetes n'' @ u_a_tilde @ ''o fechados'')
      else if sublist ''unexpected indent'' m
        then (''Sugest'' @ u_a_tilde @ ''o: Corrija a indenta'' @ u_c_cedilla @ u_a_tilde @ ''o da linha'')
      else (''Sugest'' @ u_a_tilde @ ''o: Verifique a sintaxe Python na linha''))"

definition linha_limitada :: "string \<Rightarrow> string" where
  "linha_limitada l =
     (let linha_com_erro = strip l
      in if len linha_com_erro > 30 then first_chars 27 linha_com_erro @ ''...''
         else linha_com_erro)"

definition handle_syntax_error ::
    "(string \<Rightarrow> string) \<Rightarrow> string \<Rightarrow> syntax_error \<Rightarrow> analysis \<Rightarrow> raised + analysis" where
  "handle_syntax_error to_lower source_code e res =
     (let linhas = split_on CHR ''\<newline>'' source_code;
          inicio = max 0 (lineno e - 3);
          fim = min (int (length linhas)) (lineno e + 2);
          contexto = py_slice linhas inicio fim
      in case identificar_componente_com_erro to_lower source_code (lineno e) of
           Inl x \<Rightarrow> Inl x
         | Inr (componente_nome, componente_descricao) \<Rightarrow>
             (let parte1 = ''Erro de sintaxe na linha '' @ str_int (lineno e) @ '': '' @ msg e;
                  parte2 = ''Componente: '' @ componente_nome;
                  res1 = add_error parte2 None (add_error parte1 None res)
              in if contexto \<noteq> [] \<and> 0 \<le> lineno e - inicio - 1
                    \<and> lineno e - inicio - 1 < int (length contexto)
                 then Inr (add_error (sugestao (msg e)) None
                        (add_error ((''C'' @ u_o_acute @ ''digo: '') @
                           linha_limitada (contexto ! nat (lineno e - inicio - 1))) None res1))
                 else Inr res1))"

text \<open>
  The search of \<open>_verify_ast\<close> for the tool class: the first class of the walk whose name
  ends with \<open>Tool\<close>. For that class the direct bases that are plain names are compared with
  \<open>BaseTool\<close>, and the body is searched for a function named \<open>_run\<close>.
\<close>

fun is_tool_class :: "stmt \<Rightarrow> bool" where
  "is_tool_class (ClassDef n bases body) = suffix ''Tool'' n"
| "is_tool_class s = False"

fun base_names :: "expr list \<Rightarrow> string list" where
  "base_names [] = []"
| "base_names (Name b # bs) = b # base_names bs"
| "base_names (b # bs) = base_names bs"

fun is_run_method :: "stmt \<Rightarrow> bool" where
  "is_run_method (FunctionDef n a body r) = (n = ''_run'')"
| "is_run_method s = False"

definition HERANCA_AVISO :: "string \<Rightarrow> string" where
  "HERANCA_AVISO n =
     (''AVISO DE HERAN'' @ u_CC_cedilla @ ''A\<newline>'') @ replicate 20 CHR ''-'' @ ''\<newline>'' @
     ''Classe: '' @ n @ ''\<newline>'' @
     (''Problema: N'' @ u_a_tilde @ ''o herda diretamente de 'BaseTool'\<newline>A'' @ u_c_cedilla @ u_a_tilde @ ''o: Verifique se a classe herda corretamente de 'BaseTool'\<newline>Exemplo:\<newline>class MinhaFerramenta(BaseTool):\<newline>    ...'')"

definition RUN_ERRO :: "string \<Rightarrow> string" where
  "RUN_ERRO n =
     (''ERRO NO M'' @ u_EE_acute @ ''TODO _run\<newline>'') @ replicate 20 CHR ''-'' @ ''\<newline>'' @
     ''Classe: '' @ n @ ''\<newline>'' @
     (''Problema: M'' @ u_e_acute @ ''todo '_run' n'' @ u_a_tilde @ ''o encontrado\<newline>A'' @ u_c_cedilla @ u_a_tilde @ ''o: Adicione o m'' @ u_e_acute @ ''todo '_run' '' @ u_a_grave @ '' classe\<newline>Exemplo:\<newline>    def _run(self, param1: str, param2: int = 0) -> dict:\<newline>        return {'resultado': 'processado'}'')"

definition ESTRUTURA_ERRO :: string where
  "ESTRUTURA_ERRO =
     ''ERRO NA ESTRUTURA DA CLASSE\<newline>'' @ replicate 20 CHR ''-'' @ ''\<newline>'' @
     (''Problema: Nenhuma classe terminando com 'Tool' foi encontrada\<newline>A'' @ u_c_cedilla @ u_a_tilde @ ''o: Crie uma classe que herde de BaseTool e termine com 'Tool'\<newline>Exemplo:\<newline>class MinhaFerramenta(BaseTool):\<newline>    name = 'Minha Ferramenta'\<newline>    description = 'Descri'' @ u_c_cedilla @ u_a_tilde @ ''o da ferramenta'' @ [CHR 0x27])"

definition check_tool_class :: "string \<Rightarrow> expr list \<Rightarrow> stmt list \<Rightarrow> analysis \<Rightarrow> analysis" where
  "check_tool_class n bases body res =
     (let res1 = add_info (''Classe AST encontrada: '' @ n) (res\<lparr>tool_class_name := Some n\<rparr>);
          res2 = (if ''BaseTool'' \<notin> set (base_names bases)
                  then add_warning (HERANCA_AVISO n) None res1
                  else add_info (''Heran'' @ u_c_cedilla @ ''a de BaseTool verificada na AST.'') res1)
      in if \<not> list_ex is_run_method body
         then add_error (RUN_ERRO n) None res2
         else add_info (''M'' @ u_e_acute @ ''todo '_run' encontrado na AST.'') res2)"

definition find_tool_class :: "stmt list \<Rightarrow> analysis \<Rightarrow> bool \<times> analysis" where
  "find_tool_class tree res =
     (case find is_tool_class (walk tree) of
        Some (ClassDef n bases body) \<Rightarrow> (True, check_tool_class n bases body res)
      | _ \<Rightarrow> (False, add_error ESTRUTURA_ERRO None res))"

text \<open>
  \<open>_verify_ast\<close>: \<open>Inr (ok, res)\<close> when it returns \<open>ok\<close>, \<open>Inl\<close> when an exception leaves
  it. An exception raised inside the handler of \<open>SyntaxError\<close> is not caught by the
  \<open>except Exception\<close> clause beside it; for a \<open>SyntaxError\<close> without a line number this is
  the \<open>TypeError\<close> of \<open>e.lineno - 3\<close>.
\<close>

definition no_lineno_error :: raised where
  "no_lineno_error =
     Raised Exception (''unsupported operand type(s) for -: 'NoneType' and 'int'' @ [CHR 0x27]) []"

definition read_error :: "raised \<Rightarrow> analysis \<Rightarrow> raised + bool \<times> analysis" where
  "read_error e res =
     (if is_Exception e
      then Inr (False, add_error (''Erro ao ler ou parsear o arquivo: '' @ exc_str e @
                  ''\<newline>'' @ exc_tb e) None res)
      else Inl e)"

definition verify_ast :: "world \<Rightarrow> analysis \<Rightarrow> raised + bool \<times> analysis" where
  "verify_ast w res =
     (let res1 = add_info ''Analisando AST para erros de sintaxe e estrutura'' res
      in case read_text w (path_str (tool_path res)) of
           Inl e \<Rightarrow> read_error e res1
         | Inr source_code \<Rightarrow>
             (case ast_parse w source_code of
                ParseRaises e \<Rightarrow> read_error e res1
              | SyntaxErr e \<Rightarrow>
                  (case handle_syntax_error (unicode_lower w) source_code e res1 of
                     Inl x \<Rightarrow> Inl x
                   | Inr res2 \<Rightarrow> Inr (False, res2))
              | SyntaxErrNoLine m \<Rightarrow> Inl no_lineno_error
              | Module tree \<Rightarrow>
                  Inr (find_tool_class tree
                         (add_info (''Sintaxe do arquivo Python v'' @ u_a_acute @ ''lida'') res1))))"

section \<open>ToolVerifierTool: the dynamic stage\<close>

text \<open>\<open>f"{x}"\<close> for an optional string: \<open>None\<close> is printed as \<open>None\<close>.\<close>

definition str_opt :: "string option \<Rightarrow> string" where
  "str_opt x = (case x of None \<Rightarrow> ''None'' | Some s \<Rightarrow> s)"

text \<open>
  The \<open>finally\<close> clause of \<open>_verify_import_and_inspect\<close>: the parent directory is taken
  out of \<open>sys.path\<close> again when it is there and was not there before. \<open>list.remove\<close>
  removes the first occurrence.
\<close>

definition restore_sys_path :: "string \<Rightarrow> string list \<Rightarrow> string list \<Rightarrow> string list" where
  "restore_sys_path parent_dir original_sys_path sys_path =
     (if parent_dir \<in> set sys_path \<and> parent_dir \<notin> set original_sys_path
      then remove1 parent_dir sys_path else sys_path)"

text \<open>The two outer handlers: \<open>except ImportError\<close>, then \<open>except Exception\<close>.\<close>

definition import_error :: "raised \<Rightarrow> analysis \<Rightarrow> raised + analysis" where
  "import_error e res =
     (if exc_class e = ImportError
      then Inr (add_error ((''Erro de importa'' @ u_c_cedilla @ u_a_tilde @ ''o ao carregar o m'' @ u_o_acute @ ''dulo ou suas depend'' @ u_e_circumflex @ ''ncias: '') @
                  exc_str e @ ''\<newline>'' @ exc_tb e) None res)
      else if is_Exception e
      then Inr (add_error ((''Erro inesperado durante a importa'' @ u_c_cedilla @ u_a_tilde @ ''o ou inspe'' @ u_c_cedilla @ u_a_tilde @ ''o: '') @
                  exc_str e @ ''\<newline>'' @ exc_tb e) None res)
      else Inl e)"

text \<open>
  The loop over \<open>inspect.getmembers(res.module)\<close>: it stops at the first member that has
  the name found in the syntax tree, is a class and is a subclass of \<open>BaseTool\<close>.
\<close>

definition inspect_class :: "string \<Rightarrow> cls \<Rightarrow> analysis \<Rightarrow> analysis" where
  "inspect_class name obj res =
     (let res1 = (add_info ((''Encontrada classe '' @ [CHR 0x27]) @ name @ ([CHR 0x27] @ '' herdando de BaseTool.'')) res)
                   \<lparr>tool_class := Some obj\<rparr>
      in if \<not> cls_run_callable obj
         then add_error ((''M'' @ u_e_acute @ ''todo '_run' n'' @ u_a_tilde @ ''o encontrado ou n'' @ u_a_tilde @ ''o '' @ u_e_acute @ '' cham'' @ u_a_acute @ ''vel na classe '' @ [CHR 0x27]) @ name @
                ([CHR 0x27] @ '' carregada.'')) None res1
         else add_info (''M'' @ u_e_acute @ ''todo '_run' encontrado e cham'' @ u_a_acute @ ''vel via inspe'' @ u_c_cedilla @ u_a_tilde @ ''o.'') res1)"

fun inspect_members :: "string option \<Rightarrow> (string \<times> pyobj) list \<Rightarrow> analysis \<Rightarrow> bool \<times> analysis" where
  "inspect_members cn [] res = (False, res)"
| "inspect_members cn ((name, OtherObj) # ms) res = inspect_members cn ms res"
| "inspect_members cn ((name, ClassObj obj) # ms) res =
     (if Some name = cn then
        (if \<not> cls_is_BaseTool obj then inspect_members cn ms res
         else (True, inspect_class name obj res))
      else inspect_members cn ms res)"

definition inspect_module :: "world \<Rightarrow> analysis \<Rightarrow> raised + analysis" where
  "inspect_module w res =
     (case getmembers w (path_str (tool_path res)) of
        Inl e \<Rightarrow> import_error e res
      | Inr members \<Rightarrow>
          (case inspect_members (tool_class_name res) members res of
             (found_class_in_module, res1) \<Rightarrow>
               if \<not> found_class_in_module
               then Inr (add_error (''Classe '' @ [CHR 0x27] @ str_opt (tool_class_name res1) @
                           ([CHR 0x27] @ '' (encontrada na AST) n'' @ u_a_tilde @ ''o foi encontrada no m'' @ u_o_acute @ ''dulo importado.''))
                         None res1)
               else Inr res1))"

text \<open>
  \<open>_verify_import_and_inspect\<close>, with \<open>sys.path\<close> passed in and out. The handler of the
  exception raised by the top-level code removes the parent directory whenever it is in
  \<open>sys.path\<close>; the \<open>finally\<close> clause runs after it, and also when the exception is not an
  \<open>Exception\<close> and leaves the method.
\<close>

definition load_module :: "world \<Rightarrow> analysis \<Rightarrow> string list \<Rightarrow> (raised + analysis) \<times> string list" where
  "load_module w res sys_path =
     (let original_sys_path = sys_path;
          parent_dir = path_parent (tool_path res);
          sys_path1 = (if parent_dir \<notin> set sys_path then parent_dir # sys_path else sys_path)
      in case exec_module w (path_str (tool_path res)) sys_path1 of
           (None, sys_path2) \<Rightarrow>
             (let res1 = add_info (''M'' @ u_o_acute @ ''dulo importado com sucesso.'') res;
                  sys_path3 = restore_sys_path parent_dir original_sys_path sys_path2
              in (inspect_module w res1, sys_path3))
         | (Some e_exec, sys_path2) \<Rightarrow>
             if is_Exception e_exec then
               (let res1 = add_error
                      ((''Erro durante a execu'' @ u_c_cedilla @ u_a_tilde @ ''o do c'' @ u_o_acute @ ''digo do m'' @ u_o_acute @ ''dulo (n'' @ u_i_acute @ ''vel superior): '') @
                       exc_str e_exec @ ''\<newline>'' @ exc_tb e_exec) None res;
                    sys_path3 = (if parent_dir \<in> set sys_path2 then remove1 parent_dir sys_path2
                                 else sys_path2)
                in (Inr res1, restore_sys_path parent_dir original_sys_path sys_path3))
             else (Inl e_exec, restore_sys_path parent_dir original_sys_path sys_path2))"

definition verify_import_and_inspect ::
    "world \<Rightarrow> analysis \<Rightarrow> string list \<Rightarrow> (raised + analysis) \<times> string list" where
  "verify_import_and_inspect w res sys_path =
     (if tool_class_name res = None \<or> tool_class_name res = Some []
      then (Inr (add_warning
                   (''Importa'' @ u_c_cedilla @ u_a_tilde @ ''o pulada: Nenhuma classe de ferramenta foi encontrada na AST.'')
                   None res), sys_path)
      else
        (let res1 = add_info ((''Tentando importar dinamicamente o m'' @ u_o_acute @ ''dulo: '') @
                      path_stem (tool_path res)) res;
             module_name = path_stem (tool_path res)
         in case load_spec w module_name (path_str (tool_path res)) of
              Inl e \<Rightarrow> (import_error e res1, sys_path)
            | Inr False \<Rightarrow>
                (Inr (add_error ((''Falha ao criar spec de importa'' @ u_c_cedilla @ u_a_tilde @ ''o para '') @ module_name @ ''.'')
                        None res1), sys_path)
            | Inr True \<Rightarrow> load_module w res1 sys_path))"

text \<open>
  \<open>_verify_instance\<close>: the class is called without arguments; an \<open>Exception\<close> it raises is
  recorded through \<open>add_error\<close>.
\<close>

definition check_instance :: "string option \<Rightarrow> tool_inst \<Rightarrow> analysis \<Rightarrow> analysis" where
  "check_instance cn inst res =
     (let res1 = (case inst_name inst of
                    StrAttr s \<Rightarrow>
                      add_info ((''Atributo 'name' encontrado na inst'' @ u_a_circumflex @ ''ncia: '' @ [CHR 0x27]) @ s @
                                [CHR 0x27] @ ''.'') res
                  | _ \<Rightarrow>
                      add_error ((''Atributo 'name' (string) n'' @ u_a_tilde @ ''o encontrado na INST'' @ u_AA_circumflex @ ''NCIA de '' @ [CHR 0x27]) @
                                 str_opt cn @ [CHR 0x27] @ ''.'') None res);
          res2 = (case inst_description inst of
                    StrAttr s \<Rightarrow>
                      add_info (''Atributo 'description' encontrado na inst'' @ u_a_circumflex @ ''ncia.'') res1
                  | _ \<Rightarrow>
                      add_error
                        ((''Atributo 'description' (string) n'' @ u_a_tilde @ ''o encontrado na INST'' @ u_AA_circumflex @ ''NCIA de '' @ [CHR 0x27]) @
                         str_opt cn @ [CHR 0x27] @ ''.'') None res1)
      in case inst_args_schema inst of
           NoSchema \<Rightarrow>
             add_error (''Atributo 'args_schema' n'' @ u_a_tilde @ ''o encontrado na inst'' @ u_a_circumflex @ ''ncia da ferramenta.'')
               None res2
         | NotModel t \<Rightarrow>
             add_error ((''Atributo 'args_schema' na INST'' @ u_AA_circumflex @ ''NCIA de '' @ [CHR 0x27]) @ str_opt cn @
                        ([CHR 0x27] @ '' n'' @ u_a_tilde @ ''o '' @ u_e_acute @ '' uma subclasse de pydantic.BaseModel.'')) None res2
         | ModelClass n s \<Rightarrow>
             add_info ((''Atributo 'args_schema' encontrado na inst'' @ u_a_circumflex @ ''ncia: '') @ n @ ''.'') res2
         | FalsyModel n t \<Rightarrow>
             add_info ((''Atributo 'args_schema' encontrado na inst'' @ u_a_circumflex @ ''ncia: '') @ n @ ''.'') res2)"

definition construct :: "cls \<Rightarrow> analysis \<Rightarrow> raised + analysis" where
  "construct c res =
     (let res1 = add_info ((''Tentando instanciar '' @ [CHR 0x27]) @ str_opt (tool_class_name res) @
                           [CHR 0x27] @ ''...'') res
      in case cls_construct c of
           Inr inst \<Rightarrow>
             Inr (check_instance (tool_class_name res) inst
                    ((add_info (''Instancia'' @ u_c_cedilla @ u_a_tilde @ ''o da ferramenta bem-sucedida.'') res1)
                       \<lparr>tool_instance := Some inst\<rparr>))
         | Inl e \<Rightarrow>
             if is_Exception e
             then Inr (add_error ((''Falha na instancia'' @ u_c_cedilla @ u_a_tilde @ ''o: '') @ exc_str e @ ''\<newline>'' @
                         exc_tb e) None res1)
             else Inl e)"

definition verify_instance :: "analysis \<Rightarrow> raised + analysis" where
  "verify_instance res =
     (case tool_class res of
        None \<Rightarrow> Inr (add_info (''Instancia'' @ u_c_cedilla @ u_a_tilde @ ''o pulada devido a classe n'' @ u_a_tilde @ ''o carregada.'') res)
      | Some c \<Rightarrow>
          (case cls_truth c of
             Inl e \<Rightarrow> Inl e
           | Inr False \<Rightarrow>
               Inr (add_info (''Instancia'' @ u_c_cedilla @ u_a_tilde @ ''o pulada devido a classe n'' @ u_a_tilde @ ''o carregada.'') res)
           | Inr True \<Rightarrow> construct c res))"

text \<open>\<open>_verify_args_schema\<close>, called when the instance exists.\<close>

definition invalid_args_schema :: "string \<Rightarrow> analysis \<Rightarrow> analysis" where
  "invalid_args_schema t res =
     (if \<not> list_ex (\<lambda>error. sublist ''args_schema'' error) (errors res)
      then add_warning
             ((''Atributo 'args_schema' na inst'' @ u_a_circumflex @ ''ncia '' @ u_e_acute @ '' inesperadamente inv'' @ u_a_acute @ ''lido (type='') @ t @
              ('') apesar de ter passado na verifica'' @ u_c_cedilla @ u_a_tilde @ ''o inicial.'')) None res
      else res)"

definition verify_args_schema :: "tool_inst \<Rightarrow> analysis \<Rightarrow> raised + analysis" where
  "verify_args_schema inst res =
     (case inst_args_schema inst of
        NoSchema \<Rightarrow> Inr (invalid_args_schema (''<class '' @ [CHR 0x27] @ ''NoneType'' @ [CHR 0x27] @ ''>'') res)
      | NotModel t \<Rightarrow> Inr (invalid_args_schema t res)
      | ModelClass n schema \<Rightarrow>
          (let res1 = add_info (''Verificando a validade do Pydantic Model: '' @ n) res
           in case schema of
                Inr has_properties \<Rightarrow>
                  if \<not> has_properties
                  then Inr (add_warning ((''O schema Pydantic '' @ [CHR 0x27]) @ n @
                         ([CHR 0x27] @ '' parece vazio ou inv'' @ u_a_acute @ ''lido (sem propriedades definidas).'')) None res1)
                  else Inr (add_info ((''Schema Pydantic '' @ [CHR 0x27]) @ n @ ([CHR 0x27] @ '' parece v'' @ u_a_acute @ ''lido.'')) res1)
              | Inl e \<Rightarrow>
                  if is_Exception e
                  then Inr (add_error ((''Erro ao validar o Pydantic Model '' @ [CHR 0x27]) @ n @ [CHR 0x27] @
                              '': '' @ exc_str e @ ''\<newline>'' @ exc_tb e) None res1)
                  else Inl e)
      | FalsyModel n t \<Rightarrow> Inr (invalid_args_schema t res))"

section \<open>ToolVerifierTool: run\<close>

text \<open>
  \<open>run\<close>, with \<open>sys.path\<close> passed in and out: \<open>Inr\<close> with the result dictionary when it
  returns, \<open>Inl\<close> when an exception leaves it. The argument is the path after the look-up
  in \<open>kwargs\<close>, \<open>None\<close> when no path was given. In the tests \<open>if res.tool_class\<close> and
  \<open>if res.tool_instance\<close> the value \<open>None\<close> is false and an object has the truth value kept
  with it; an exception raised by that test leaves \<open>run\<close>. An instance that is false
  gets the warning of the instance that could not be created.
\<close>

definition conclude :: "analysis \<Rightarrow> analysis" where
  "conclude res =
     (let res1 =
        (if errors res = [] \<and> warnings res = []
         then add_info (''Verifica'' @ u_c_cedilla @ u_a_tilde @ ''o conclu'' @ u_i_acute @ ''da sem erros ou avisos cr'' @ u_i_acute @ ''ticos.'') res
         else if errors res = []
         then add_warning (''Verifica'' @ u_c_cedilla @ u_a_tilde @ ''o conclu'' @ u_i_acute @ ''da com avisos.'') None res
         else add_error (''Verifica'' @ u_c_cedilla @ u_a_tilde @ ''o conclu'' @ u_i_acute @ ''da com erros cr'' @ u_i_acute @ ''ticos.'') None res)
      in add_info ((''Verifica'' @ u_c_cedilla @ u_a_tilde @ ''o finalizada para: '') @ path_str (tool_path res)) res1)"

definition schema_skipped :: "analysis \<Rightarrow> analysis" where
  "schema_skipped res =
     add_warning
       (''Verifica'' @ u_c_cedilla @ u_a_tilde @ ''o do args_schema pulada pois a inst'' @ u_a_circumflex @ ''ncia da ferramenta n'' @ u_a_tilde @ ''o p'' @ u_o_circumflex @ ''de ser criada.'')
       None res"

definition verify_schema_of_instance :: "analysis \<Rightarrow> raised + analysis" where
  "verify_schema_of_instance res =
     (case tool_instance res of
        None \<Rightarrow> Inr (schema_skipped res)
      | Some inst \<Rightarrow>
          (case inst_truth inst of
             Inl e \<Rightarrow> Inl e
           | Inr False \<Rightarrow> Inr (schema_skipped res)
           | Inr True \<Rightarrow> verify_args_schema inst res))"

definition verify_loaded :: "analysis \<Rightarrow> raised + analysis" where
  "verify_loaded res =
     (case tool_class res of
        None \<Rightarrow> verify_schema_of_instance res
      | Some c \<Rightarrow>
          (case cls_truth c of
             Inl e \<Rightarrow> Inl e
           | Inr False \<Rightarrow> verify_schema_of_instance res
           | Inr True \<Rightarrow>
               (case verify_instance res of
                  Inl e \<Rightarrow> Inl e
                | Inr res1 \<Rightarrow> verify_schema_of_instance res1)))"

definition run :: "world \<Rightarrow> string list \<Rightarrow> path option \<Rightarrow> (raised + report) \<times> string list" where
  "run w sys_path tool_path_arg =
     (case tool_path_arg of
        None \<Rightarrow>
          (Inr \<lparr>sucesso = False,
                erros = [('' ERRO: Argumento 'tool_path' n'' @ u_a_tilde @ ''o fornecido.'')],
                avisos = [], infos = [], report_tool_path = None,
                report_tool_class_name = None\<rparr>, sys_path)
      | Some p \<Rightarrow>
          (let res = add_info ((''Iniciando verifica'' @ u_c_cedilla @ u_a_tilde @ ''o para: '') @ path_str p) (new_analysis p)
           in if \<not> path_exists w (path_str p)
              then (Inr (build_result_dict
                      (add_error ((''Arquivo n'' @ u_a_tilde @ ''o encontrado: '') @ path_str p) None res)), sys_path)
              else if \<not> path_is_file w (path_str p) \<or> path_suffix p \<noteq> ''.py''
              then (Inr (build_result_dict
                      (add_error ((''O caminho fornecido n'' @ u_a_tilde @ ''o '' @ u_e_acute @ '' um arquivo .py v'' @ u_a_acute @ ''lido: '') @
                         path_str p) None res)), sys_path)
              else
                (case verify_ast w res of
                   Inl e \<Rightarrow> (Inl e, sys_path)
                 | Inr (False, res1) \<Rightarrow> (Inr (build_result_dict res1), sys_path)
                 | Inr (True, res1) \<Rightarrow>
                     (case verify_import_and_inspect w res1 sys_path of
                        (Inl e, sys_path1) \<Rightarrow> (Inl e, sys_path1)
                      | (Inr res2, sys_path1) \<Rightarrow>
                          (case verify_loaded res2 of
                             Inl e \<Rightarrow> (Inl e, sys_path1)
                           | Inr res3 \<Rightarrow>
                               (Inr (build_result_dict (conclude res3)), sys_path1))))))"

section \<open>ExecutarFerramentaTool\<close>


definition path_join :: "string \<Rightarrow> string \<Rightarrow> string" where
  "path_join a b =
     (if prefix ''/'' b then b
      else if a = [] \<or> suffix ''/'' a then a @ b
      else a @ ''/'' @ b)"


definition rstrip_slash :: "string \<Rightarrow> string" where
  "rstrip_slash p = rev (dropWhile (\<lambda>c. c = CHR ''/'') (rev p))"

definition dirname :: "string \<Rightarrow> string" where
  "dirname p =
     (let head = rev (dropWhile (\<lambda>c. c \<noteq> CHR ''/'') (rev p))
      in if head \<noteq> [] \<and> head \<noteq> replicate (length head) CHR ''/'' then rstrip_slash head
         else head)"


text \<open>
  An exception raised while the tool is loaded, built or run: whether it is an instance
  of \<open>Exception\<close>, and the outcome of \<open>str(e)\<close>, which is its text or the exception that its
  \<open>__str__\<close> raises.
\<close>

datatype tool_exc = ToolExc (exc_is_Exception: bool) (exc_text: "tool_exc + string")

text \<open>
  The keyword arguments, kept with the outcome of \<open>f"{parametros}"\<close>: the text it prints, or
  the exception that the \<open>__repr__\<close> of a value raises. The attributes of a loaded module
  are objects that can be called without arguments; the tool this gives has or has not a
  callable \<open>run\<close>, which raises or returns a result, kept with the outcome of printing it
  in an f-string.
\<close>

record params =
  kwargs :: "(string \<times> pyval) list"
  kwargs_str :: "tool_exc + string"
















section \<open>DynamicToolCreator: the artifact path\<close>

text \<open>
  \<open>pathlib\<close> on POSIX. A path is parsed into its root (empty, \<open>/\<close>, or \<open>//\<close> for exactly
  two leading slashes) and its components; empty components and the components \<open>.\<close> are
  dropped. \<open>str(p)\<close> gives the root followed by the components joined by \<open>/\<close>, and \<open>.\<close>
  for the empty path. \<open>a / b\<close> joins the two texts as \<open>os.path.join\<close> does and parses the
  result: an absolute \<open>b\<close> replaces \<open>a\<close>.
\<close>

record pure_path =
  path_root :: string
  path_tail :: "string list"

definition splitroot :: "string \<Rightarrow> string \<times> string" where
  "splitroot p =
     (if \<not> prefix ''/'' p then ([], p)
      else if prefix ''//'' p \<and> \<not> prefix ''///'' p then (''//'', drop 2 p)
      else (''/'', drop 1 p))"

definition Path :: "string \<Rightarrow> pure_path" where
  "Path p =
     (case splitroot p of
        (r, rel) \<Rightarrow>
          \<lparr>path_root = r,
           path_tail = filter (\<lambda>x. x \<noteq> [] \<and> x \<noteq> ''.'') (split_on CHR ''/'' rel)\<rparr>)"

definition path_text :: "pure_path \<Rightarrow> string" where
  "path_text p =
     (if path_root p = [] \<and> path_tail p = [] then ''.''
      else path_root p @ join ''/'' (path_tail p))"

definition joinpath :: "string \<Rightarrow> string \<Rightarrow> pure_path" where
  "joinpath a b = Path (path_join a b)"

text \<open>
  \<open>DynamicToolCreator._run\<close>, lines 745 to 752, 815 and 820 of
  \<open>tools/dynamic_tool_creator/dynamic_tool_creator.py\<close>:
  \<^verbatim>\<open>tool_dir_name = name.lower().replace(" ", "") + "_tool"\<close>,
  \<^verbatim>\<open>tools_dir = Path(f"crews/pdca/tools/{tool_dir_name}")\<close>,
  \<^verbatim>\<open>tool_file_name = name.lower().replace(" ", "_") + "_tool.py"\<close>,
  \<^verbatim>\<open>tool_file_path = tools_dir / tool_file_name\<close>,
  \<^verbatim>\<open>init_file_path = tools_dir / "__init__.py"\<close>.
  \<open>tools_dir_text\<close> is the text given to \<open>Path\<close>. The first argument of these functions is
  the parameter of \<^const>\<open>lower\<close>.
\<close>

definition tool_dir_name :: "(string \<Rightarrow> string) \<Rightarrow> string \<Rightarrow> string" where
  "tool_dir_name to_lower name = replace_char CHR '' '' [] (lower to_lower name) @ ''_tool''"

definition tools_dir_text :: "(string \<Rightarrow> string) \<Rightarrow> string \<Rightarrow> string" where
  "tools_dir_text to_lower name = ''crews/pdca/tools/'' @ tool_dir_name to_lower name"

definition tools_dir :: "(string \<Rightarrow> string) \<Rightarrow> string \<Rightarrow> pure_path" where
  "tools_dir to_lower name = Path (tools_dir_text to_lower name)"

definition tool_file_name :: "(string \<Rightarrow> string) \<Rightarrow> string \<Rightarrow> string" where
  "tool_file_name to_lower name = replace_char CHR '' '' ''_'' (lower to_lower name) @ ''_tool.py''"

definition tool_file_path :: "(string \<Rightarrow> string) \<Rightarrow> string \<Rightarrow> pure_path" where
  "tool_file_path to_lower name =
     joinpath (tools_dir_text to_lower name) (tool_file_name to_lower name)"

definition init_file_path :: "(string \<Rightarrow> string) \<Rightarrow> string \<Rightarrow> pure_path" where
  "init_file_path to_lower name = joinpath (tools_dir_text to_lower name) ''__init__.py''"

section \<open>ToolASTBuilder\<close>

text \<open>
  \<open>tools/dynamic_tool_creator/dynamic_tool_creator.py\<close>. A \<open>ToolParameter\<close> and a
  \<open>ToolDefinition\<close> are the pydantic models of the source; a default that is absent is
  the Python value \<open>None\<close>. The fragments of a definition are parsed by \<open>ast.parse\<close>,
  which the builder gets as a function.
\<close>

record ToolParameter =
  param_name :: string
  param_type :: string
  param_description :: string
  param_required :: bool
  param_default :: pyval

record ToolDefinition =
  td_name :: string
  td_description :: string
  td_parameters :: "ToolParameter list"
  td_implementation :: string
  td_imports :: "string list"
  td_custom_methods :: "string list"

text \<open>
  What the builder raises: the \<open>SyntaxError\<close> of the parser itself, as the parser made it,
  with or without a line number; the \<open>SyntaxError\<close> that \<open>_create_run_method\<close> raises with
  its own text; the \<open>TypeError\<close> of \<open>erro_linha - 4\<close> in the handler of \<open>_create_run_method\<close>
  when the \<open>SyntaxError\<close> has no line number; the
  \<open>IndexError\<close> of \<open>body[0]\<close> for a fragment without statements; any other exception of
  the parser. What the synthesis raises besides: an exception of the file system, and an
  exception of the printer of the tree.
\<close>

datatype synth_error =
    ParserSyntaxError syntax_error
  | ParserSyntaxErrorNoLine string
  | FormattedSyntaxError string
  | HandlerTypeError
  | EmptyFragment
  | ParserRaised raised
  | FileSystemRaised raised
  | PrinterRaised raised

text \<open>\<open>ast.parse(code).body[0]\<close>.\<close>

definition parse_first :: "(string \<Rightarrow> parse_result) \<Rightarrow> string \<Rightarrow> synth_error + stmt" where
  "parse_first parse code =
     (case parse code of
        Module [] \<Rightarrow> Inl EmptyFragment
      | Module (s # ss) \<Rightarrow> Inr s
      | SyntaxErr e \<Rightarrow> Inl (ParserSyntaxError e)
      | SyntaxErrNoLine m \<Rightarrow> Inl (ParserSyntaxErrorNoLine m)
      | ParseRaises e \<Rightarrow> Inl (ParserRaised e))"

fun parse_all :: "(string \<Rightarrow> parse_result) \<Rightarrow> string list \<Rightarrow> synth_error + stmt list" where
  "parse_all parse [] = Inr []"
| "parse_all parse (code # codes) =
     (case parse_first parse code of
        Inl e \<Rightarrow> Inl e
      | Inr s \<Rightarrow>
          (case parse_all parse codes of
             Inl e \<Rightarrow> Inl e
           | Inr ss \<Rightarrow> Inr (s # ss)))"

definition tool_name_clean :: "ToolDefinition \<Rightarrow> string" where
  "tool_name_clean tool_def = replace_char CHR '' '' [] (td_name tool_def)"

text \<open>\<open>_create_descriptions_dict\<close>: the four statements it appends to the module.\<close>

definition get_desc_func :: stmt where
  "get_desc_func =
     FunctionDef ''get_description''
       (Arguments [Arg ''key'' (Some (Name ''str''))] [])
       [Expr (Constant (VStr
          (''Retorna a descri'' @ u_c_cedilla @ u_a_tilde @ ''o para a chave especificada do dicion'' @ u_a_acute @ ''rio DESCRIPTIONS.''))),
        Return (Some
          (Call (Attribute (Name ''DESCRIPTIONS'') ''get'')
             [Name ''key'',
              JoinedStr [Constant (VStr (''Descri'' @ u_c_cedilla @ u_a_tilde @ ''o para '')),
                         FormattedValue (Name ''key'') (- 1),
                         Constant (VStr ('' n'' @ u_a_tilde @ ''o encontrada''))]]
             []))]
       (Some (Name ''str''))"

definition create_descriptions_dict :: "ToolDefinition \<Rightarrow> stmt list" where
  "create_descriptions_dict tool_def =
     [Expr (Constant (VStr (''# Dicion'' @ u_a_acute @ ''rio centralizado de descri'' @ u_c_cedilla @ u_o_tilde @ ''es''))),
      Assign [Name ''DESCRIPTIONS'']
        (DictE
           (map (\<lambda>param. Constant (VStr (tool_name_clean tool_def @ ''Parameters.'' @
                                           param_name param)))
              (td_parameters tool_def) @
            [Constant (VStr (tool_name_clean tool_def @ ''Tool.description''))])
           (map (\<lambda>param. Constant (VStr (param_description param))) (td_parameters tool_def) @
            [Constant (VStr (td_description tool_def))])),
      Expr (Constant (VStr (''# Fun'' @ u_c_cedilla @ u_a_tilde @ ''o para obter descri'' @ u_c_cedilla @ u_o_tilde @ ''es do dicion'' @ u_a_acute @ ''rio local''))),
      get_desc_func]"

text \<open>
  \<open>add_imports\<close>: the fixed imports, then the imports of the definition, each kept at its
  first occurrence; then the description table.
\<close>

definition standard_imports :: "string list" where
  "standard_imports =
     [''from typing import Dict, List, Any, Optional, Type'',
      ''from pydantic import BaseModel, Field'',
      ''from crewai.tools import BaseTool'']"

fun unique_imports :: "string list \<Rightarrow> string list \<Rightarrow> string list" where
  "unique_imports seen [] = []"
| "unique_imports seen (imp # imps) =
     (if imp \<notin> set seen then imp # unique_imports (imp # seen) imps
      else unique_imports seen imps)"

definition add_imports ::
    "(string \<Rightarrow> parse_result) \<Rightarrow> ToolDefinition \<Rightarrow> synth_error + stmt list" where
  "add_imports parse tool_def =
     (case parse_all parse (unique_imports [] (standard_imports @ td_imports tool_def)) of
        Inl e \<Rightarrow> Inl e
      | Inr stmts \<Rightarrow> Inr (stmts @ create_descriptions_dict tool_def))"

text \<open>\<open>_get_type_annotation\<close>.\<close>

definition get_type_annotation :: "string \<Rightarrow> expr" where
  "get_type_annotation t =
     (if t = ''string'' then Name ''str''
      else if t = ''integer'' then Name ''int''
      else if t = ''number'' then Name ''float''
      else if t = ''boolean'' then Name ''bool''
      else if t = ''array'' then Subscript (Name ''List'') (Name ''Any'')
      else if t = ''object'' then Subscript (Name ''Dict'') (TupleE [Name ''str'', Name ''Any''])
      else Name ''Any'')"

text \<open>
  \<open>create_parameter_model\<close>: the class of the parameters, one annotated field for each
  parameter. \<open>field_default_value\<close> is the variable \<open>default_value\<close> of the loop: it stays
  \<open>None\<close> for a required parameter.
\<close>

definition field_default_value :: "ToolParameter \<Rightarrow> expr option" where
  "field_default_value param =
     (if \<not> param_required param then
        (if param_default param \<noteq> VNone then Some (Constant (param_default param))
         else if param_type param = ''string'' then Some (Constant (VStr []))
         else if param_type param = ''integer'' \<or> param_type param = ''number''
           then Some (Constant (VInt 0))
         else if param_type param = ''boolean'' then Some (Constant (VBool False))
         else if param_type param = ''array'' then Some (ListE [])
         else if param_type param = ''object'' then Some (DictE [] [])
         else Some (Constant VNone))
      else None)"

definition field_assign :: "ToolParameter \<Rightarrow> stmt" where
  "field_assign param =
     AnnAssign (Name (param_name param)) (get_type_annotation (param_type param))
       (Some
          (if param_required param
           then Call (Name ''Field'') [Constant VEllipsis]
                  [(''description'', Constant (VStr (param_description param)))]
           else Call (Name ''Field'') []
                  [(''description'', Constant (VStr (param_description param))),
                   (''default'', the (field_default_value param))]))"

definition create_parameter_model :: "ToolDefinition \<Rightarrow> stmt list" where
  "create_parameter_model tool_def =
     (if td_parameters tool_def = [] then []
      else
        [ClassDef (tool_name_clean tool_def @ ''Parameters'') [Name ''BaseModel'']
           (Expr (Constant (VStr ((''Par'' @ u_a_circumflex @ ''metros para a ferramenta '') @ td_name tool_def @ ''.''))) #
            map field_assign (td_parameters tool_def))])"

text \<open>
  \<open>_create_run_method\<close>. The arguments are \<open>self\<close> and the parameters in their order; the
  list \<open>defaults\<close> gets one value for each parameter that is not required, in their
  order.
\<close>

definition run_args :: "ToolDefinition \<Rightarrow> arg list" where
  "run_args tool_def =
     Arg ''self'' None #
     map (\<lambda>param. Arg (param_name param) (Some (get_type_annotation (param_type param))))
       (td_parameters tool_def)"

fun run_defaults :: "ToolParameter list \<Rightarrow> expr list" where
  "run_defaults [] = []"
| "run_defaults (param # params) =
     (if \<not> param_required param then
        (if param_default param \<noteq> VNone then Constant (param_default param)
         else if param_type param = ''string'' then Constant (VStr [])
         else if param_type param = ''integer'' \<or> param_type param = ''number''
           then Constant (VInt 0)
         else if param_type param = ''boolean'' then Constant (VBool False)
         else if param_type param = ''array'' then ListE []
         else if param_type param = ''object'' then DictE [] []
         else Constant VNone) # run_defaults params
      else run_defaults params)"

text \<open>
  The text of the \<open>SyntaxError\<close> that \<open>_create_run_method\<close> raises when the implementation
  does not parse: a header, the lines of the implementation around the error with their
  numbers, and a fixed list of instructions. \<open>f"{i:4d}"\<close> pads the number to four
  characters; \<open>' ' * n\<close> is empty for a negative \<open>n\<close>.
\<close>

definition format_4d :: "int \<Rightarrow> string" where
  "format_4d i = replicate (4 - length (str_int i)) CHR '' '' @ str_int i"

fun contexto_linhas :: "syntax_error \<Rightarrow> int \<Rightarrow> string list \<Rightarrow> string list" where
  "contexto_linhas e i [] = []"
| "contexto_linhas e i (linha # linhas) =
     ((if i = lineno e then ''>>'' else ''  '') @ '' '' @ format_4d i @ '' | '' @ linha) #
     (if i = lineno e
      then (''     | '' @ replicate (nat (offset e - 1)) CHR '' '' @ ''^'') #
           contexto_linhas e (i + 1) linhas
      else contexto_linhas e (i + 1) linhas)"

definition instrucoes :: "ToolDefinition \<Rightarrow> string list" where
  "instrucoes tool_def =
     [replicate 20 CHR ''-'',
      (''\<newline>ATEN'' @ u_CC_cedilla @ u_AA_tilde @ ''O - PAR'' @ u_AA_circumflex @ ''METROS DA FERRAMENTA:''),
      (''Os seguintes par'' @ u_a_circumflex @ ''metros s'' @ u_a_tilde @ ''o automaticamente recebidos pelo m'' @ u_e_acute @ ''todo _run: '') @
        join '', '' (map param_name (td_parameters tool_def)),
      (''Voc'' @ u_e_circumflex @ '' N'' @ u_AA_tilde @ ''O precisa redeclar'' @ u_a_acute @ ''-los, apenas us'' @ u_a_acute @ ''-los diretamente na implementa'' @ u_c_cedilla @ u_a_tilde @ ''o.''),
      (''\<newline>INSTRU'' @ u_CC_cedilla @ u_OO_tilde @ ''ES PARA AGENTES DO CREWAI:''),
      (''\<newline>1. IMPLEMENTA'' @ u_CC_cedilla @ u_AA_tilde @ ''O RECOMENDADA (M'' @ u_EE_acute @ ''TODO AUXILIAR):''),
      (''        # Delegar para m'' @ u_e_acute @ ''todo auxiliar '' @ u_e_acute @ '' a abordagem mais segura\<newline>        return self.processar_api(url, formato)''),
      (''\<newline>   Adicione o m'' @ u_e_acute @ ''todo auxiliar via custom_methods:''),
      (''def processar_api(self, url, formato):\<newline>    # Validar par'' @ u_a_circumflex @ ''metros\<newline>    if not url.startswith(('http://', 'https://')):\<newline>        return 'Erro: URL inv'' @ u_a_acute @ ''lida'\<newline>    \<newline>    # Processar requisi'' @ u_c_cedilla @ u_a_tilde @ ''o\<newline>    try:\<newline>        response = requests.get(url)\<newline>        dados = response.json()\<newline>        return json.dumps(dados) if formato == 'json' else str(dados)[:500]\<newline>    except Exception as e:\<newline>        return f'Erro: {str(e)}'' @ [CHR 0x27]),
      (''\<newline>2. IMPLEMENTA'' @ u_CC_cedilla @ u_AA_tilde @ ''O SIMPLIFICADA (SEM BLOCOS COMPLEXOS):''),
      ''        # Processamento direto\<newline>        resultado = {'url': url, 'formato': formato}\<newline>        return json.dumps(resultado)'',
      ''\<newline>3. ESTRUTURA PARA PROCESSAMENTO DIRETO:'',
      (''        # Valida'' @ u_c_cedilla @ u_a_tilde @ ''o b'' @ u_a_acute @ ''sica sem blocos condicionais complexos\<newline>        if not url.startswith('http'):\<newline>            return {'erro': 'URL inv'' @ u_a_acute @ ''lida'}\<newline>            \<newline>        # Continuar com processamento direto\<newline>        response = requests.get(url)\<newline>        return str(response.text)[:500]''),
      (''\<newline>REGRAS PARA IMPLEMENTA'' @ u_CC_cedilla @ u_AA_tilde @ ''O:''),
      (''1. Evite blocos complexos aninhados no m'' @ u_e_acute @ ''todo _run''),
      (''2. Use m'' @ u_e_acute @ ''todos auxiliares para l'' @ u_o_acute @ ''gica complexa (via custom_methods)''),
      (''3. Mantenha a indenta'' @ u_c_cedilla @ u_a_tilde @ ''o consistente''),
      ''4. Para APIs, implemente tratamento de erros adequado'']"

definition erro_detalhado :: "ToolDefinition \<Rightarrow> string \<Rightarrow> syntax_error \<Rightarrow> string list" where
  "erro_detalhado tool_def implementation_code e =
     (let erro_linha = lineno e;
          linhas_codigo = split_on CHR ''\<newline>'' implementation_code;
          inicio = max 0 (erro_linha - 4);
          fim = min (int (length linhas_codigo)) (erro_linha + 3);
          contexto = py_slice linhas_codigo inicio fim
      in [(''\<newline>ERRO DE SINTAXE NA IMPLEMENTA'' @ u_CC_cedilla @ u_AA_tilde @ ''O''),
          replicate 40 CHR ''='',
          ''Ferramenta: '' @ td_name tool_def,
          ''Erro: '' @ msg e,
          ''Linha: '' @ str_int erro_linha,
          ''\<newline>Contexto do erro:'',
          replicate 20 CHR ''-''] @
         contexto_linhas e (inicio + 1) contexto @
         instrucoes tool_def)"

definition create_run_method ::
    "(string \<Rightarrow> parse_result) \<Rightarrow> ToolDefinition \<Rightarrow> synth_error + stmt" where
  "create_run_method parse tool_def =
     (let implementation_code = strip (td_implementation tool_def)
      in case parse implementation_code of
           Module body \<Rightarrow>
             Inr (FunctionDef ''_run''
                    (Arguments (run_args tool_def) (run_defaults (td_parameters tool_def)))
                    body None)
         | SyntaxErr e \<Rightarrow>
             Inl (FormattedSyntaxError
                    (join ''\<newline>'' (erro_detalhado tool_def implementation_code e)))
         | SyntaxErrNoLine m \<Rightarrow> Inl HandlerTypeError
         | ParseRaises e \<Rightarrow> Inl (ParserRaised e))"

text \<open>\<open>_create_main_block\<close>.\<close>

definition create_main_block :: "ToolDefinition \<Rightarrow> string \<Rightarrow> stmt" where
  "create_main_block tool_def class_name =
     If (Compare (Name ''__name__'') [Eq] [Constant (VStr ''__main__'')])
       [Assign [Name ''tool''] (Call (Name class_name) [] []),
        Assign [Name ''result'']
          (Call (Attribute (Name ''tool'') ''run'') []
             (map (\<lambda>param.
                     (param_name param,
                      Constant (if param_default param \<noteq> VNone then param_default param
                                else VStr ''exemplo'')))
                (td_parameters tool_def))),
        Expr (Call (Name ''print'') [Name ''result''] [])]
       []"

text \<open>
  \<open>create_tool_class\<close>: the class of the tool and the test block after it. Each custom
  method is parsed where it is spliced in, with no handler around the parser.
\<close>

definition tool_class_head :: "ToolDefinition \<Rightarrow> stmt list" where
  "tool_class_head tool_def =
     [Expr (Constant (VStr (td_description tool_def))),
      Assign [Name ''model_config'']
        (DictE [Constant (VStr ''arbitrary_types_allowed''),
                Constant (VStr ''validate_assignment'')]
               [Constant (VBool True), Constant (VBool True)]),
      AnnAssign (Name ''name'') (Name ''str'') (Some (Constant (VStr (td_name tool_def)))),
      AnnAssign (Name ''description'') (Name ''str'')
        (Some (Call (Name ''get_description'')
                 [Constant (VStr (tool_name_clean tool_def @ ''Tool.description''))] []))] @
     (if td_parameters tool_def \<noteq> []
      then [AnnAssign (Name ''args_schema'') (Name ''Type[BaseModel]'')
              (Some (Name (tool_name_clean tool_def @ ''Parameters'')))]
      else [])"

definition create_tool_class ::
    "(string \<Rightarrow> parse_result) \<Rightarrow> ToolDefinition \<Rightarrow> synth_error + stmt list" where
  "create_tool_class parse tool_def =
     (let class_name = tool_name_clean tool_def @ ''Tool''
      in case parse_all parse (td_custom_methods tool_def) of
           Inl e \<Rightarrow> Inl e
         | Inr methods \<Rightarrow>
             (case create_run_method parse tool_def of
                Inl e \<Rightarrow> Inl e
              | Inr run_method \<Rightarrow>
                  Inr [ClassDef class_name [Name ''BaseTool'']
                         (tool_class_head tool_def @ methods @ [run_method]),
                       create_main_block tool_def class_name]))"

section \<open>DynamicToolCreator: synthesis\<close>

text \<open>
  \<open>verificar_metodos_vazios\<close>: the names of the custom methods that parse to a function
  whose body is the single statement \<open>pass\<close>. A method that does not parse, or that has no
  statement, is skipped by the \<open>except Exception\<close> clause.
\<close>

fun metodo_vazio :: "stmt \<Rightarrow> string option" where
  "metodo_vazio (FunctionDef n a [Pass] r) = Some n"
| "metodo_vazio s = None"

fun verificar_metodos_vazios ::
    "(string \<Rightarrow> parse_result) \<Rightarrow> string list \<Rightarrow> raised + string list" where
  "verificar_metodos_vazios parse [] = Inr []"
| "verificar_metodos_vazios parse (metodo # metodos) =
     (case parse metodo of
        ParseRaises e \<Rightarrow>
          if is_Exception e then verificar_metodos_vazios parse metodos else Inl e
      | SyntaxErr e \<Rightarrow> verificar_metodos_vazios parse metodos
      | SyntaxErrNoLine m \<Rightarrow> verificar_metodos_vazios parse metodos
      | Module [] \<Rightarrow> verificar_metodos_vazios parse metodos
      | Module (metodo_ast # rest) \<Rightarrow>
          (case metodo_vazio metodo_ast of
             None \<Rightarrow> verificar_metodos_vazios parse metodos
           | Some nome_metodo \<Rightarrow>
               (case verificar_metodos_vazios parse metodos of
                  Inl e \<Rightarrow> Inl e
                | Inr metodos_vazios \<Rightarrow> Inr (nome_metodo # metodos_vazios))))"

definition mensagem_erro :: "string list \<Rightarrow> string" where
  "mensagem_erro metodos_vazios =
     (''ERRO: Os seguintes m'' @ u_e_acute @ ''todos auxiliares est'' @ u_a_tilde @ ''o vazios (apenas 'pass'): '') @
     join '', '' metodos_vazios @
     (''. \<newline>M'' @ u_e_acute @ ''todos vazios n'' @ u_a_tilde @ ''o s'' @ u_a_tilde @ ''o permitidos, voc'' @ u_e_circumflex @ '' deve implementar a l'' @ u_o_acute @ ''gica necess'' @ u_a_acute @ ''ria para cada m'' @ u_e_acute @ ''todo auxiliar definido.'')"

text \<open>
  The world around the synthesis. The state of the file system is a value of a type
  \<open>'fs\<close> of which the model knows nothing but the operations the synthesis calls, each by
  the text of its path: \<open>fs_mkdir\<close> for \<open>Path.mkdir(parents=True, exist_ok=True)\<close>,
  \<open>fs_write\<close> for opening a file for writing, writing a text and closing it, both with
  the exception raised, if any, and the state left behind; \<open>fs_exists\<close> for \<open>Path.exists\<close>,
  which answers or raises (it passes on the errors of \<open>stat\<close> other than a missing file).
  \<open>frag_parse\<close> is \<open>ast.parse\<close>, \<open>to_source\<close> is \<open>astor.to_source\<close>, and
  \<open>synth_unicode_lower\<close> is \<open>str.lower\<close> on the strings that are not ASCII.
\<close>

record 'fs synth_world =
  frag_parse :: "string \<Rightarrow> parse_result"
  to_source :: "stmt list \<Rightarrow> raised + string"
  synth_unicode_lower :: "string \<Rightarrow> string"
  fs_mkdir :: "string \<Rightarrow> 'fs \<Rightarrow> raised option \<times> 'fs"
  fs_write :: "string \<Rightarrow> string \<Rightarrow> 'fs \<Rightarrow> raised option \<times> 'fs"
  fs_exists :: "string \<Rightarrow> 'fs \<Rightarrow> raised + bool"

text \<open>The module that the builder assembles in \<open>_run\<close>.\<close>

definition build_tree :: "(string \<Rightarrow> parse_result) \<Rightarrow> ToolDefinition \<Rightarrow> synth_error + stmt list" where
  "build_tree parse tool_def =
     (case add_imports parse tool_def of
        Inl e \<Rightarrow> Inl e
      | Inr head \<Rightarrow>
          (case create_tool_class parse tool_def of
             Inl e \<Rightarrow> Inl e
           | Inr tool_class_stmts \<Rightarrow>
               Inr (head @
                    (if td_parameters tool_def \<noteq> [] then create_parameter_model tool_def else []) @
                    tool_class_stmts)))"

text \<open>The two texts written to \<open>__init__.py\<close>, one after the other.\<close>

definition init_text :: "(string \<Rightarrow> string) \<Rightarrow> string \<Rightarrow> string" where
  "init_text to_lower tool_name =
     (''# Pacote para ferramentas din'' @ u_a_circumflex @ ''micas\<newline>'') @
     ''from .'' @ replace_char CHR '' '' ''_'' (lower to_lower tool_name) @ ''_tool import '' @
     replace_char CHR '' '' [] tool_name @ ''Tool\<newline>''"

text \<open>
  \<open>DynamicToolCreator._run\<close>, lines 745 to 824, with the arguments gathered in the
  \<open>ToolDefinition\<close> that the method builds from them: up to the point where the artifact
  and the \<open>__init__.py\<close> beside it are written. The method goes on to verify the written
  file and to assemble its report, which is not part of this function. The outcome is the
  text returned for empty methods, the exception raised, or the path and text written;
  with it comes the state of the file system that the call leaves.
\<close>

datatype synth_result =
    Returned string
  | Raises synth_error
  | Written string string

definition write_files ::
    "'fs synth_world \<Rightarrow> 'fs \<Rightarrow> string \<Rightarrow> string \<Rightarrow> synth_result \<times> 'fs" where
  "write_files w fs name code =
     (let to_lower = synth_unicode_lower w;
          tool_file = path_text (tool_file_path to_lower name);
          init_file = path_text (init_file_path to_lower name)
      in case fs_write w tool_file code fs of
           (Some e, fs1) \<Rightarrow> (Raises (FileSystemRaised e), fs1)
         | (None, fs1) \<Rightarrow>
             (case fs_exists w init_file fs1 of
                Inl e \<Rightarrow> (Raises (FileSystemRaised e), fs1)
              | Inr True \<Rightarrow> (Written tool_file code, fs1)
              | Inr False \<Rightarrow>
                  (case fs_write w init_file (init_text to_lower name) fs1 of
                     (Some e, fs2) \<Rightarrow> (Raises (FileSystemRaised e), fs2)
                   | (None, fs2) \<Rightarrow> (Written tool_file code, fs2))))"

definition build_and_write ::
    "'fs synth_world \<Rightarrow> 'fs \<Rightarrow> ToolDefinition \<Rightarrow> synth_result \<times> 'fs" where
  "build_and_write w fs tool_def =
     (case verificar_metodos_vazios (frag_parse w) (td_custom_methods tool_def) of
        Inl e \<Rightarrow> (Raises (ParserRaised e), fs)
      | Inr metodos_vazios \<Rightarrow>
          if metodos_vazios \<noteq> [] then (Returned (mensagem_erro metodos_vazios), fs)
          else
            (case build_tree (frag_parse w) tool_def of
               Inl e \<Rightarrow> (Raises e, fs)
             | Inr tree \<Rightarrow>
                 (case to_source w tree of
                    Inl e \<Rightarrow> (Raises (PrinterRaised e), fs)
                  | Inr code \<Rightarrow> write_files w fs (td_name tool_def) code)))"

definition synthesize ::
    "'fs synth_world \<Rightarrow> 'fs \<Rightarrow> ToolDefinition \<Rightarrow> synth_result \<times> 'fs" where
  "synthesize w fs tool_def =
     (case fs_mkdir w (path_text (tools_dir (synth_unicode_lower w) (td_name tool_def))) fs of
        (Some e, fs1) \<Rightarrow> (Raises (FileSystemRaised e), fs1)
      | (None, fs1) \<Rightarrow> build_and_write w fs1 tool_def)"

section \<open>Example artifacts for the verifier\<close>

text \<open>
  A tool file \<open>/tools/loganalyzer_tool/loganalyzer_tool.py\<close> and worlds around it, used to
  run the model on concrete inputs. In \<open>broken_world\<close> the file holds a class header
  without its colon, for which the parser reports \<open>expected ':'\<close> at line 1. In
  \<open>tool_world c\<close> the file parses to a class \<open>LogAnalyzerTool\<close> with base \<open>BaseTool\<close>
  and a method \<open>_run\<close>, its top-level code runs without touching \<open>sys.path\<close>, and the
  loaded module has the class object \<open>c\<close> under that name. In \<open>failing_module_world\<close> the
  top-level code of the same file raises an exception. The texts of the examples are
  ASCII, so \<open>unicode_lower\<close> is never called in them.
\<close>

definition example_path :: path where
  "example_path =
     \<lparr>path_str = ''/tools/loganalyzer_tool/loganalyzer_tool.py'',
      path_suffix = ''.py'',
      path_stem = ''loganalyzer_tool'',
      path_parent = ''/tools/loganalyzer_tool''\<rparr>"

definition broken_source :: string where
  "broken_source =
     ''class LogAnalyzerTool(BaseTool)\<newline>    name: str = 1\<newline>    x = 2\<newline>''"

definition tool_source :: string where
  "tool_source =
     ''class LogAnalyzerTool(BaseTool):\<newline>    def _run(self):\<newline>        return 1\<newline>''"

definition tool_tree :: "stmt list" where
  "tool_tree =
     [ClassDef ''LogAnalyzerTool'' [Name ''BaseTool'']
        [FunctionDef ''_run'' (Arguments [Arg ''self'' None] [])
           [Return (Some (Constant (VInt 1)))] None]]"

definition broken_world :: world where
  "broken_world =
     \<lparr>path_exists = (\<lambda>p. p = path_str example_path),
      path_is_file = (\<lambda>p. p = path_str example_path),
      read_text = (\<lambda>p. Inr broken_source),
      ast_parse = (\<lambda>s. SyntaxErr \<lparr>lineno = 1, offset = 32,
                                     msg = ''expected '' @ [CHR 0x27] @ '':'' @ [CHR 0x27]\<rparr>),
      load_spec = (\<lambda>n p. Inr True),
      exec_module = (\<lambda>p sys_path. (None, sys_path)),
      getmembers = (\<lambda>p. Inr []),
      unicode_lower = (\<lambda>s. s)\<rparr>"

definition tool_world :: "cls \<Rightarrow> world" where
  "tool_world c =
     \<lparr>path_exists = (\<lambda>p. p = path_str example_path),
      path_is_file = (\<lambda>p. p = path_str example_path),
      read_text = (\<lambda>p. Inr tool_source),
      ast_parse = (\<lambda>s. Module tool_tree),
      load_spec = (\<lambda>n p. Inr True),
      exec_module = (\<lambda>p sys_path. (None, sys_path)),
      getmembers = (\<lambda>p. Inr [(''BaseTool'', OtherObj), (''LogAnalyzerTool'', ClassObj c)]),
      unicode_lower = (\<lambda>s. s)\<rparr>"

definition good_instance :: tool_inst where
  "good_instance =
     \<lparr>inst_name = StrAttr ''LogAnalyzer'',
      inst_description = StrAttr ''Analyzes logs'',
      inst_args_schema = ModelClass ''LogAnalyzerParameters'' (Inr True),
      inst_truth = Inr True\<rparr>"

definition good_class :: cls where
  "good_class =
     \<lparr>cls_is_BaseTool = True, cls_run_callable = True, cls_construct = Inr good_instance,
      cls_truth = Inr True\<rparr>"

definition needs_argument_class :: cls where
  "needs_argument_class =
     \<lparr>cls_is_BaseTool = True, cls_run_callable = True,
      cls_construct = Inl (Raised Exception ''missing 1 required positional argument'' ''Traceback''),
      cls_truth = Inr True\<rparr>"

definition failing_module_world :: world where
  "failing_module_world =
     (tool_world good_class)
       \<lparr>exec_module := (\<lambda>p sys_path. (Some (Raised Exception ''boom'' ''Traceback''), sys_path))\<rparr>"

section \<open>Example artifacts for the harness\<close>





section \<open>Example definitions for the synthesis\<close>

text \<open>
  The tool \<open>LogAnalyzer\<close> with one required parameter \<open>path\<close>. \<open>example_parse\<close> is the
  parser on the fragments used here: the three fixed imports, the implementation
  \<open>return self.process(path)\<close>, a method \<open>process\<close> that returns \<open>ok\<close>, a method \<open>helper\<close>
  whose body is \<open>pass\<close>, a method header without its colon, for which it reports a
  syntax error at line 1, and a body of four lines whose second line is an \<open>if\<close> without
  its colon, for which it reports a syntax error at line 2. Any other text is reported as
  invalid at line 1.
\<close>

definition process_method :: string where
  "process_method = (''def process(self, path):\<newline>    return 'ok'' @ [CHR 0x27])"

definition helper_stub :: string where
  "helper_stub = ''def helper(self):\<newline>    pass''"

definition broken_method :: string where
  "broken_method = (''def process(self, path)\<newline>    return 'ok'' @ [CHR 0x27])"

definition broken_body :: string where
  "broken_body = (''data = self.process(path)\<newline>if data\<newline>    return data\<newline>return 'empty'' @ [CHR 0x27])"

definition example_parse :: "string \<Rightarrow> parse_result" where
  "example_parse code =
     (if code \<in> set standard_imports then Module [OtherStmt []]
      else if code = ''return self.process(path)''
        then Module [Return (Some (Call (Attribute (Name ''self'') ''process'')
                                     [Name ''path''] []))]
      else if code = process_method
        then Module [FunctionDef ''process''
                       (Arguments [Arg ''self'' None, Arg ''path'' None] [])
                       [Return (Some (Constant (VStr ''ok'')))] None]
      else if code = helper_stub
        then Module [FunctionDef ''helper'' (Arguments [Arg ''self'' None] []) [Pass] None]
      else if code = broken_method
        then SyntaxErr \<lparr>lineno = 1, offset = 24, msg = (''expected ':'' @ [CHR 0x27])\<rparr>
      else if code = broken_body
        then SyntaxErr \<lparr>lineno = 2, offset = 8, msg = (''expected ':'' @ [CHR 0x27])\<rparr>
      else SyntaxErr \<lparr>lineno = 1, offset = 1, msg = ''invalid syntax''\<rparr>)"

text \<open>
  A file system for the examples: the directories that exist and the texts of the files,
  by path; in \<open>blocked_storage\<close> a file has the path of the directory of the tool.
  \<open>example_mkdir\<close> creates the directory and the directories above it, and fails
  when a file has that path. \<open>example_write\<close> fails when the directory of the file does
  not exist.
\<close>

record storage =
  dirs :: "string set"
  files :: "string \<Rightarrow> string option"

definition empty_storage :: storage where
  "empty_storage = \<lparr>dirs = {}, files = (\<lambda>p. None)\<rparr>"

definition blocked_storage :: storage where
  "blocked_storage =
     \<lparr>dirs = {}, files = [''crews/pdca/tools/loganalyzer_tool'' \<mapsto> ''not a directory'']\<rparr>"

definition example_mkdir :: "string \<Rightarrow> storage \<Rightarrow> raised option \<times> storage" where
  "example_mkdir p st =
     (if files st p \<noteq> None
      then (Some (Raised Exception (''[Errno 17] File exists: '' @ p) []), st)
      else (None,
            st\<lparr>dirs := set (map (join ''/'') (tl (prefixes (split_on CHR ''/'' p)))) \<union> dirs st\<rparr>))"

definition example_write :: "string \<Rightarrow> string \<Rightarrow> storage \<Rightarrow> raised option \<times> storage" where
  "example_write p text st =
     (if dirname p \<noteq> [] \<and> dirname p \<notin> dirs st
      then (Some (Raised Exception (''[Errno 2] No such file or directory: '' @ p) []), st)
      else (None, st\<lparr>files := (files st)(p \<mapsto> text)\<rparr>))"

definition example_synth_world :: "storage synth_world" where
  "example_synth_world =
     \<lparr>frag_parse = example_parse,
      to_source = (\<lambda>tree. Inr ''<source>''),
      synth_unicode_lower = (\<lambda>s. s),
      fs_mkdir = example_mkdir,
      fs_write = example_write,
      fs_exists = (\<lambda>p st. Inr (p \<in> dirs st \<or> files st p \<noteq> None))\<rparr>"

definition path_parameter :: ToolParameter where
  "path_parameter =
     \<lparr>param_name = ''path'', param_type = ''string'',
      param_description = ''Path of the log file'', param_required = True,
      param_default = VNone\<rparr>"


definition log_analyzer :: "string list \<Rightarrow> ToolDefinition" where
  "log_analyzer methods =
     \<lparr>td_name = ''LogAnalyzer'', td_description = ''Analyzes logs'',
      td_parameters = [path_parameter],
      td_implementation = ''return self.process(path)'',
      td_imports = [], td_custom_methods = methods\<rparr>"

definition broken_body_tool :: ToolDefinition where
  "broken_body_tool = (log_analyzer [process_method])\<lparr>td_implementation := broken_body\<rparr>"

section \<open>Facts about the string functions\<close>













section \<open>The artifact path: directory and file name\<close>






section \<open>The verifier: success and fatal messages\<close>

lemma sucesso_build_result_dict:
  "sucesso (build_result_dict res) \<longleftrightarrow> erros (build_result_dict res) = []"
  by (simp add: build_result_dict_def)

lemma run_returns_built_dict:
  assumes "fst (run w sys_path (Some p)) = Inr rep"
  shows "\<exists>res. rep = build_result_dict res"
  using assms
  by (auto simp add: run_def Let_def
      split: option.splits sum.splits prod.splits bool.splits if_splits)

text \<open>
  C4: whenever \<open>run\<close> returns its result dictionary, the flag \<open>sucesso\<close> is true exactly
  when the list \<open>erros\<close> of fatal messages is empty; \<open>avisos\<close> and \<open>infos\<close> have no part
  in it. This covers the call without a path, which returns one fatal message.
\<close>

theorem C4_sucesso_iff_no_erros:
  assumes "fst (run w sys_path tool_path_arg) = Inr rep"
  shows "sucesso rep \<longleftrightarrow> erros rep = []"
proof (cases tool_path_arg)
  case None
  with assms show ?thesis
    by (auto simp add: run_def)
next
  case (Some p)
  with assms obtain res where "rep = build_result_dict res"
    using run_returns_built_dict by blast
  then show ?thesis
    by (simp only: sucesso_build_result_dict)
qed

theorem C4_sucesso_iff_no_erros_witness:
  "sucesso (projr (fst (run (tool_world good_class) [] (Some example_path))))
   \<and> erros (projr (fst (run (tool_world good_class) [] (Some example_path)))) = []"
proof -
  have "\<not> isl (fst (run (tool_world good_class) [] (Some example_path)))"
    by code_simp
  then have r: "fst (run (tool_world good_class) [] (Some example_path))
      = Inr (projr (fst (run (tool_world good_class) [] (Some example_path))))"
    by simp
  have "erros (projr (fst (run (tool_world good_class) [] (Some example_path)))) = []"
    by code_simp
  with C4_sucesso_iff_no_erros [OF r] show ?thesis
    by simp
qed

section \<open>The verifier: a class that cannot be built without arguments\<close>

text \<open>
  C5: the claim is that a failed zero-argument construction is recorded as a warning and
  alone never makes the verification fail. The docstring of \<open>_verify_instance\<close> says the
  same, but its handler calls \<open>add_error\<close>: for a file whose class loads and whose
  construction raises, the failure is the first fatal message, a second fatal message
  closes the run, and \<open>sucesso\<close> is false. The only warning is the one for the skipped
  check of \<open>args_schema\<close>.
\<close>

theorem C5_instantiation_failure_is_fatal:
  "(case fst (run (tool_world needs_argument_class) [''/usr/lib''] (Some example_path)) of
      Inl e \<Rightarrow> False
    | Inr rep \<Rightarrow>
        \<not> sucesso rep
        \<and> erros rep =
            [(''ERRO: Falha na instancia'' @ u_c_cedilla @ u_a_tilde @ ''o: missing 1 required positional argument\<newline>Traceback''),
             (''ERRO: Verifica'' @ u_c_cedilla @ u_a_tilde @ ''o conclu'' @ u_i_acute @ ''da com erros cr'' @ u_i_acute @ ''ticos.'')]
        \<and> avisos rep =
            [(''AVISO: Verifica'' @ u_c_cedilla @ u_a_tilde @ ''o do args_schema pulada pois a inst'' @ u_a_circumflex @ ''ncia da ferramenta n'' @ u_a_tilde @ ''o p'' @ u_o_circumflex @ ''de ser criada.'')])"
  by code_simp

theorem C5_instantiation_failure_is_fatal_witness:
  "\<exists>rep. fst (run (tool_world needs_argument_class) [''/usr/lib''] (Some example_path)) = Inr rep
     \<and> sucesso rep = False \<and> length (erros rep) = 2 \<and> length (avisos rep) = 1"
proof (cases "fst (run (tool_world needs_argument_class) [''/usr/lib''] (Some example_path))")
  case (Inl e)
  with C5_instantiation_failure_is_fatal show ?thesis
    by simp
next
  case (Inr rep)
  with C5_instantiation_failure_is_fatal have "\<not> sucesso rep"
    and "length (erros rep) = 2" and "length (avisos rep) = 1"
    by simp_all
  with Inr show ?thesis
    by simp
qed

section \<open>The verifier: a file that does not parse\<close>

lemma py_index_in_range:
  assumes "0 \<le> i" and "i < int (length xs)"
  shows "py_index xs i = Some (xs ! nat i)"
  using assms by (simp add: py_index_def)

lemma componente_is_mapped:
  "map_of MAPEAMENTO_COMPONENTES (componente_of_line to_lower linhas n s) \<noteq> None"
proof -
  have "componente_of_line to_lower linhas n s \<in> fst ` set MAPEAMENTO_COMPONENTES"
    by (simp add: componente_of_line_def MAPEAMENTO_COMPONENTES_def Let_def)
  then show ?thesis
    by (simp only: map_of_eq_None_iff not_not)
qed

lemma contexto_line:
  fixes n :: int and ls :: "'a list"
  assumes "1 \<le> n" and "n \<le> int (length ls)"
  defines "inicio \<equiv> max 0 (n - 3)"
  defines "contexto \<equiv> py_slice ls inicio (min (int (length ls)) (n + 2))"
  shows "contexto \<noteq> []" and "0 \<le> n - inicio - 1" and "n - inicio - 1 < int (length contexto)"
    and "contexto ! nat (n - inicio - 1) = ls ! nat (n - 1)"
proof -
  have lo: "slice_bound (length ls) inicio = nat inicio"
    using assms(1,2) by (simp add: slice_bound_def inicio_def)
  have hi: "slice_bound (length ls) (min (int (length ls)) (n + 2)) = nat (min (int (length ls)) (n + 2))"
    using assms(1,2) by (simp add: slice_bound_def)
  have len: "length contexto = nat (min (int (length ls)) (n + 2)) - nat inicio"
    using assms(1,2) unfolding contexto_def py_slice_def Let_def lo hi
    by (simp add: inicio_def)
  show idx0: "0 \<le> n - inicio - 1"
    using assms(1) by (simp add: inicio_def)
  show idx1: "n - inicio - 1 < int (length contexto)"
    using assms(1,2) unfolding len by (simp add: inicio_def)
  then show "contexto \<noteq> []"
    using idx0 by auto
  have i1: "nat (n - inicio - 1) < nat (min (int (length ls)) (n + 2)) - nat inicio"
    using idx0 idx1 unfolding len by linarith
  have i2: "nat inicio \<le> length ls"
    using assms(1,2) by (simp add: inicio_def)
  have "contexto ! nat (n - inicio - 1) = drop (nat inicio) ls ! nat (n - inicio - 1)"
    unfolding contexto_def py_slice_def Let_def lo hi using i1 by (rule nth_take)
  also have "\<dots> = ls ! (nat inicio + nat (n - inicio - 1))"
    using i2 by simp
  also have "nat inicio + nat (n - inicio - 1) = nat (n - 1)"
    using assms(1) by (simp add: inicio_def)
  finally show "contexto ! nat (n - inicio - 1) = ls ! nat (n - 1)" .
qed

lemma handle_syntax_error_in_file:
  assumes "1 \<le> lineno e"
    and "lineno e \<le> int (length (split_on CHR ''\<newline>'' source_code))"
  shows "handle_syntax_error to_lower source_code e res =
     Inr (add_error (sugestao (msg e)) None
            (add_error ((''C'' @ u_o_acute @ ''digo: '') @
                 linha_limitada (split_on CHR ''\<newline>'' source_code ! nat (lineno e - 1))) None
               (add_error (''Componente: '' @
                    componente_of_line to_lower (split_on CHR ''\<newline>'' source_code) (lineno e - 1)
                      (strip (split_on CHR ''\<newline>'' source_code ! nat (lineno e - 1)))) None
                  (add_error (''Erro de sintaxe na linha '' @ str_int (lineno e) @ '': '' @ msg e)
                     None res))))"
proof -
  let ?ls = "split_on CHR ''\<newline>'' source_code"
  let ?comp = "componente_of_line to_lower ?ls (lineno e - 1) (strip (?ls ! nat (lineno e - 1)))"
  have idx: "py_index ?ls (lineno e - 1) = Some (?ls ! nat (lineno e - 1))"
    using assms by (intro py_index_in_range) simp_all
  obtain d where d: "map_of MAPEAMENTO_COMPONENTES ?comp = Some d"
    using componente_is_mapped [of to_lower ?ls "lineno e - 1" "strip (?ls ! nat (lineno e - 1))"]
    by blast
  have ident: "identificar_componente_com_erro to_lower source_code (lineno e) = Inr (?comp, d)"
    by (simp add: identificar_componente_com_erro_def Let_def idx d)
  note ctx = contexto_line [OF assms]
  show ?thesis
    unfolding handle_syntax_error_def Let_def ident
    using ctx by simp
qed

lemma linha_limitada_counts_characters:
  "len (''desc = '' @ [CHR 0x22] @ ''descri'' @ u_c_cedilla @ u_a_tilde @ ''o da a'' @ u_c_cedilla @ u_a_tilde @ ''o '' @ u_u_acute @ ''til'') = 30
   \<and> length (''desc = '' @ [CHR 0x22] @ ''descri'' @ u_c_cedilla @ u_a_tilde @ ''o da a'' @ u_c_cedilla @ u_a_tilde @ ''o '' @ u_u_acute @ ''til'') = 35
   \<and> linha_limitada (''    '' @ (''desc = '' @ [CHR 0x22] @ ''descri'' @ u_c_cedilla @ u_a_tilde @ ''o da a'' @ u_c_cedilla @ u_a_tilde @ ''o '' @ u_u_acute @ ''til'')) = (''desc = '' @ [CHR 0x22] @ ''descri'' @ u_c_cedilla @ u_a_tilde @ ''o da a'' @ u_c_cedilla @ u_a_tilde @ ''o '' @ u_u_acute @ ''til'')
   \<and> linha_limitada ((''desc = '' @ [CHR 0x22] @ ''descri'' @ u_c_cedilla @ u_a_tilde @ ''o da a'' @ u_c_cedilla @ u_a_tilde @ ''o '' @ u_u_acute @ ''til'' @ [CHR 0x22]) @ [CHR 0xC2, CHR 0xA0])
       = (''desc = '' @ [CHR 0x22] @ ''descri'' @ u_c_cedilla @ u_a_tilde @ ''o da a'' @ u_c_cedilla @ u_a_tilde @ ''o '' @ u_u_acute @ ''...'')"
  by code_simp

text \<open>
  C7, as stated: a file that does not parse gets exactly one fatal message, whose context
  holds the full text of the line. For a class header without its colon the verifier
  returns four fatal messages, and the line of 31 characters is cut to 27 characters and
  three dots.
\<close>

theorem C7_four_messages_counterexample:
  "run broken_world [] (Some example_path) =
     (Inr \<lparr>sucesso = False,
           erros = [(''ERRO: Erro de sintaxe na linha 1: expected ':'' @ [CHR 0x27]),
                    (''ERRO: Componente: Heran'' @ u_c_cedilla @ ''a de Classe''),
                    (''ERRO: C'' @ u_o_acute @ ''digo: class LogAnalyzerTool(BaseT...''),
                    (''ERRO: Sugest'' @ u_a_tilde @ ''o: Adicione dois pontos (:) ao final da linha'')],
           avisos = [],
           infos = [(''INFO: Iniciando verifica'' @ u_c_cedilla @ u_a_tilde @ ''o para: /tools/loganalyzer_tool/loganalyzer_tool.py''),
                    ''INFO: Analisando AST para erros de sintaxe e estrutura''],
           report_tool_path = Some ''/tools/loganalyzer_tool/loganalyzer_tool.py'',
           report_tool_class_name = None\<rparr>, [])"
  by code_simp

text \<open>
  C7, amended: for a file that exists, has the suffix \<open>.py\<close> and fails to parse with a
  syntax error at one of its lines, \<open>run\<close> returns \<open>sucesso = False\<close> with four fatal
  messages, in this order: the line number and the message of the syntax error; the
  component the error is attributed to; the text of that line, stripped and, when longer
  than 30 characters, cut to its first 27 characters and three dots; a suggestion chosen
  by the message of the error. The run stops there: no warning and no message of a later
  stage is produced, and \<open>sys.path\<close> is unchanged.
\<close>

theorem C7_syntax_error_report:
  assumes "path_exists w (path_str p)" and "path_is_file w (path_str p)"
    and "path_suffix p = ''.py''"
    and "read_text w (path_str p) = Inr source_code"
    and "ast_parse w source_code = SyntaxErr e"
    and "1 \<le> lineno e"
    and "lineno e \<le> int (length (split_on CHR ''\<newline>'' source_code))"
  shows "run w sys_path (Some p) =
     (Inr \<lparr>sucesso = False,
           erros =
             [''ERRO: '' @ ''Erro de sintaxe na linha '' @ str_int (lineno e) @ '': '' @ msg e,
              ''ERRO: '' @ ''Componente: '' @
                componente_of_line (unicode_lower w) (split_on CHR ''\<newline>'' source_code) (lineno e - 1)
                  (strip (split_on CHR ''\<newline>'' source_code ! nat (lineno e - 1))),
              ''ERRO: '' @ (''C'' @ u_o_acute @ ''digo: '') @
                linha_limitada (split_on CHR ''\<newline>'' source_code ! nat (lineno e - 1)),
              ''ERRO: '' @ sugestao (msg e)],
           avisos = [],
           infos =
             [''INFO: '' @ (''Iniciando verifica'' @ u_c_cedilla @ u_a_tilde @ ''o para: '') @ path_str p,
              ''INFO: Analisando AST para erros de sintaxe e estrutura''],
           report_tool_path = Some (path_str p),
           report_tool_class_name = None\<rparr>, sys_path)"
proof -
  have "verify_ast w (add_info ((''Iniciando verifica'' @ u_c_cedilla @ u_a_tilde @ ''o para: '') @ path_str p) (new_analysis p)) =
      Inr (False, add_error (sugestao (msg e)) None
            (add_error ((''C'' @ u_o_acute @ ''digo: '') @
                 linha_limitada (split_on CHR ''\<newline>'' source_code ! nat (lineno e - 1))) None
               (add_error (''Componente: '' @
                    componente_of_line (unicode_lower w) (split_on CHR ''\<newline>'' source_code) (lineno e - 1)
                      (strip (split_on CHR ''\<newline>'' source_code ! nat (lineno e - 1)))) None
                  (add_error (''Erro de sintaxe na linha '' @ str_int (lineno e) @ '': '' @ msg e)
                     None
                     (add_info ''Analisando AST para erros de sintaxe e estrutura''
                        (add_info ((''Iniciando verifica'' @ u_c_cedilla @ u_a_tilde @ ''o para: '') @ path_str p)
                           (new_analysis p)))))))"
    using assms(4,5) handle_syntax_error_in_file [OF assms(6,7)]
    by (simp add: verify_ast_def Let_def add_info_def new_analysis_def)
  then show ?thesis
    using assms(1,2,3)
    by (simp add: run_def Let_def build_result_dict_def add_error_def add_info_def
        new_analysis_def)
qed

theorem C7_syntax_error_report_witness:
  "run broken_world [''/usr/lib''] (Some example_path) =
     (Inr \<lparr>sucesso = False,
           erros =
             [''ERRO: '' @ ''Erro de sintaxe na linha '' @ str_int 1 @ '': '' @ (''expected ':'' @ [CHR 0x27]),
              ''ERRO: '' @ ''Componente: '' @
                componente_of_line (unicode_lower broken_world) (split_on CHR ''\<newline>'' broken_source) 0
                  (strip (split_on CHR ''\<newline>'' broken_source ! 0)),
              ''ERRO: '' @ (''C'' @ u_o_acute @ ''digo: '') @
                linha_limitada (split_on CHR ''\<newline>'' broken_source ! 0),
              ''ERRO: '' @ sugestao (''expected ':'' @ [CHR 0x27])],
           avisos = [],
           infos =
             [''INFO: '' @ (''Iniciando verifica'' @ u_c_cedilla @ u_a_tilde @ ''o para: '') @ path_str example_path,
              ''INFO: Analisando AST para erros de sintaxe e estrutura''],
           report_tool_path = Some (path_str example_path),
           report_tool_class_name = None\<rparr>, [''/usr/lib''])"
proof -
  let ?e = "\<lparr>lineno = 1, offset = 32, msg = (''expected ':'' @ [CHR 0x27])\<rparr>"
  have 1: "path_exists broken_world (path_str example_path)"
    by code_simp
  have 2: "path_is_file broken_world (path_str example_path)"
    by code_simp
  have 3: "path_suffix example_path = ''.py''"
    by code_simp
  have 4: "read_text broken_world (path_str example_path) = Inr broken_source"
    by (simp add: broken_world_def)
  have 5: "ast_parse broken_world broken_source = SyntaxErr ?e"
    by (simp add: broken_world_def)
  have 6: "1 \<le> lineno ?e"
    by simp
  have 7: "lineno ?e \<le> int (length (split_on CHR ''\<newline>'' broken_source))"
    by code_simp
  show ?thesis
    using C7_syntax_error_report [OF 1 2 3 4 5 6 7, of "[''/usr/lib'']"] by simp
qed

section \<open>The verifier: the module search path\<close>

text \<open>
  C10: the claim is that \<open>sys.path\<close> is the same after a verification as before it, the
  parent directory of the file being removed again unless it was there beforehand. The
  \<open>finally\<close> clause of \<open>_verify_import_and_inspect\<close> tests that the directory was not
  there before; the handler of an exception raised by the top-level code of the file
  removes it without that test. For a file whose top-level code raises, verified while
  its directory is the first entry of \<open>sys.path\<close>, the entry is gone after the run.
\<close>

theorem C10_sys_path_entry_lost:
  "snd (run failing_module_world [''/tools/loganalyzer_tool'', ''/usr/lib''] (Some example_path))
     = [''/usr/lib'']"
  by code_simp

theorem C10_sys_path_entry_lost_witness:
  "''/tools/loganalyzer_tool'' \<notin>
     set (snd (run failing_module_world [''/tools/loganalyzer_tool'', ''/usr/lib'']
                 (Some example_path)))"
  unfolding C10_sys_path_entry_lost by simp

section \<open>The harness: what a failed execution returns\<close>

lemma sublist_skip: "sublist x b \<Longrightarrow> sublist x (a @ b)"
  unfolding sublist_def by (metis append_assoc)













section \<open>The synthesis: custom methods with an empty body\<close>

lemma in_join: "x \<in> set xs \<Longrightarrow> sublist x (join sep xs)"
proof (induction sep xs rule: join.induct)
  case (1 sep)
  then show ?case by simp
next
  case (2 sep y)
  then show ?case by simp
next
  case (3 sep y z zs)
  show ?case
  proof (cases "x = y")
    case True
    then show ?thesis by simp
  next
    case False
    with 3 have "sublist x (join sep (z # zs))"
      by simp
    then have "sublist x (sep @ join sep (z # zs))"
      by (rule sublist_skip)
    then have "sublist x (y @ sep @ join sep (z # zs))"
      by (rule sublist_skip)
    then show ?thesis by simp
  qed
qed

lemma mensagem_erro_lists: "n \<in> set vazios \<Longrightarrow> sublist n (mensagem_erro vazios)"
proof -
  assume "n \<in> set vazios"
  then have "sublist n (join '', '' vazios)"
    by (rule in_join)
  then have h: "sublist n (join '', '' vazios @ z)" for z
    unfolding sublist_def by (metis append_assoc)
  show ?thesis
    unfolding mensagem_erro_def by (rule sublist_skip) (rule h)
qed

lemma verificar_returns:
  assumes "\<forall>m \<in> set metodos. \<forall>e. parse m = ParseRaises e \<longrightarrow> is_Exception e"
  shows "\<exists>vazios. verificar_metodos_vazios parse metodos = Inr vazios"
  using assms
proof (induction metodos)
  case Nil
  then show ?case by simp
next
  case (Cons m metodos)
  then obtain vazios where "verificar_metodos_vazios parse metodos = Inr vazios"
    by auto
  with Cons.prems show ?case
    by (auto split: parse_result.splits list.splits option.splits)
qed

lemma verificar_tail:
  assumes "verificar_metodos_vazios parse (m # metodos) = Inr vazios"
  shows "\<exists>vs. verificar_metodos_vazios parse metodos = Inr vs \<and> set vs \<subseteq> set vazios"
  using assms
  by (auto split: parse_result.splits list.splits option.splits sum.splits if_splits)

lemma verificar_finds:
  assumes "verificar_metodos_vazios parse metodos = Inr vazios"
    and "metodo \<in> set metodos"
    and "parse metodo = Module (FunctionDef n a [Pass] r # rest)"
  shows "n \<in> set vazios"
  using assms
proof (induction metodos arbitrary: vazios)
  case Nil
  then show ?case by simp
next
  case (Cons m metodos)
  show ?case
  proof (cases "m = metodo")
    case True
    with Cons.prems(1,3) show ?thesis
      by (auto split: sum.splits)
  next
    case False
    with Cons.prems(2) have mem: "metodo \<in> set metodos"
      by simp
    from verificar_tail [OF Cons.prems(1)]
    obtain vs where vs: "verificar_metodos_vazios parse metodos = Inr vs"
      and sub: "set vs \<subseteq> set vazios"
      by blast
    from Cons.IH [OF vs mem Cons.prems(3)] sub show ?thesis
      by blast
  qed
qed

lemma build_and_write_rejects:
  assumes "verificar_metodos_vazios (frag_parse w) (td_custom_methods d) = Inr vazios"
    and "vazios \<noteq> []"
  shows "build_and_write w fs d = (Returned (mensagem_erro vazios), fs)"
  using assms by (simp add: build_and_write_def)

text \<open>
  C2, as stated: when a custom method is a stub, the synthesis fails before any file or
  directory is created. The check of the methods comes after the \<open>mkdir\<close> of the tool
  directory: on an empty storage, the definition with the stub \<open>helper\<close> is rejected with
  the message that names \<open>helper\<close>, and the directory of the tool exists afterwards.
\<close>

theorem C2_directory_created_counterexample:
  "dirs empty_storage = {}
   \<and> fst (synthesize example_synth_world empty_storage
            (log_analyzer [process_method, helper_stub]))
       = Returned (mensagem_erro [''helper''])
   \<and> ''crews/pdca/tools/loganalyzer_tool''
       \<in> dirs (snd (synthesize example_synth_world empty_storage
                       (log_analyzer [process_method, helper_stub])))"
  by code_simp

text \<open>
  C2, amended. Let a custom method of the definition parse to a function whose body is
  the single statement \<open>pass\<close> (and let the parser raise nothing but \<open>Exception\<close>s on the
  custom methods). The synthesis first creates the directory of the tool. If that raises,
  the exception leaves the synthesis. Otherwise the synthesis returns the error message
  built from the list of all such methods, the name of that method is in the list and in
  the message, and nothing more is done to the file system: its state is the one that
  the creation of the directory left, so no file is written.
\<close>

theorem C2_empty_methods_rejected:
  assumes "metodo \<in> set (td_custom_methods d)"
    and "frag_parse w metodo = Module (FunctionDef n a [Pass] r # rest)"
    and "\<forall>m \<in> set (td_custom_methods d). \<forall>e. frag_parse w m = ParseRaises e \<longrightarrow> is_Exception e"
  shows "(fs_mkdir w (path_text (tools_dir (synth_unicode_lower w) (td_name d))) fs = (None, fs1)
          \<longrightarrow> (\<exists>vazios.
                verificar_metodos_vazios (frag_parse w) (td_custom_methods d) = Inr vazios
                \<and> synthesize w fs d = (Returned (mensagem_erro vazios), fs1)
                \<and> n \<in> set vazios
                \<and> sublist n (mensagem_erro vazios)))
     \<and> (fs_mkdir w (path_text (tools_dir (synth_unicode_lower w) (td_name d))) fs = (Some e, fs1)
          \<longrightarrow> synthesize w fs d = (Raises (FileSystemRaised e), fs1))"
proof (intro conjI impI)
  assume mk: "fs_mkdir w (path_text (tools_dir (synth_unicode_lower w) (td_name d))) fs
    = (None, fs1)"
  from verificar_returns [OF assms(3)] obtain vazios
    where v: "verificar_metodos_vazios (frag_parse w) (td_custom_methods d) = Inr vazios"
    by blast
  from verificar_finds [OF v assms(1,2)] have n: "n \<in> set vazios" .
  then have "vazios \<noteq> []"
    by auto
  from build_and_write_rejects [OF v this]
  have "build_and_write w fs1 d = (Returned (mensagem_erro vazios), fs1)" .
  with mk have "synthesize w fs d = (Returned (mensagem_erro vazios), fs1)"
    by (simp add: synthesize_def)
  with v n mensagem_erro_lists [OF n]
  show "\<exists>vazios. verificar_metodos_vazios (frag_parse w) (td_custom_methods d) = Inr vazios
      \<and> synthesize w fs d = (Returned (mensagem_erro vazios), fs1)
      \<and> n \<in> set vazios
      \<and> sublist n (mensagem_erro vazios)"
    by blast
next
  assume "fs_mkdir w (path_text (tools_dir (synth_unicode_lower w) (td_name d))) fs
    = (Some e, fs1)"
  then show "synthesize w fs d = (Raises (FileSystemRaised e), fs1)"
    by (simp add: synthesize_def)
qed

theorem C2_empty_methods_rejected_witness:
  "(\<exists>vazios. verificar_metodos_vazios example_parse [process_method, helper_stub] = Inr vazios
      \<and> synthesize example_synth_world empty_storage (log_analyzer [process_method, helper_stub])
          = (Returned (mensagem_erro vazios),
             snd (example_mkdir ''crews/pdca/tools/loganalyzer_tool'' empty_storage))
      \<and> ''helper'' \<in> set vazios
      \<and> sublist ''helper'' (mensagem_erro vazios))
   \<and> files (snd (example_mkdir ''crews/pdca/tools/loganalyzer_tool'' empty_storage))
       = files empty_storage
   \<and> synthesize example_synth_world blocked_storage (log_analyzer [process_method, helper_stub])
       = (Raises (FileSystemRaised
                    (Raised Exception
                       ''[Errno 17] File exists: crews/pdca/tools/loganalyzer_tool'' [])),
          blocked_storage)"
proof -
  let ?d = "log_analyzer [process_method, helper_stub]"
  let ?dir = "''crews/pdca/tools/loganalyzer_tool''"
  let ?e = "Raised Exception ''[Errno 17] File exists: crews/pdca/tools/loganalyzer_tool'' []"
  have cm: "td_custom_methods ?d = [process_method, helper_stub]"
    by (simp add: log_analyzer_def)
  have fp: "frag_parse example_synth_world = example_parse"
    by (simp add: example_synth_world_def)
  have dir: "path_text (tools_dir (synth_unicode_lower example_synth_world) (td_name ?d)) = ?dir"
    by code_simp
  have 1: "helper_stub \<in> set (td_custom_methods ?d)"
    by (simp add: cm)
  have 2: "frag_parse example_synth_world helper_stub
      = Module (FunctionDef ''helper'' (Arguments [Arg ''self'' None] []) [Pass] None # [])"
    unfolding fp by code_simp
  have 3: "\<forall>m \<in> set (td_custom_methods ?d). \<forall>e.
      frag_parse example_synth_world m = ParseRaises e \<longrightarrow> is_Exception e"
    unfolding fp by (simp add: example_parse_def)
  have mk: "fs_mkdir example_synth_world ?dir empty_storage
      = (None, snd (example_mkdir ?dir empty_storage))"
    by (simp add: example_synth_world_def example_mkdir_def empty_storage_def)
  have blocked: "fs_mkdir example_synth_world ?dir blocked_storage = (Some ?e, blocked_storage)"
    by (simp add: example_synth_world_def example_mkdir_def blocked_storage_def)
  have same: "files (snd (example_mkdir ?dir empty_storage)) = files empty_storage"
    by (simp add: example_mkdir_def empty_storage_def)
  from C2_empty_methods_rejected [OF 1 2 3, of empty_storage "snd (example_mkdir ?dir empty_storage)",
      unfolded dir cm fp] mk
  have a: "\<exists>vazios. verificar_metodos_vazios example_parse [process_method, helper_stub] = Inr vazios
      \<and> synthesize example_synth_world empty_storage ?d
          = (Returned (mensagem_erro vazios), snd (example_mkdir ?dir empty_storage))
      \<and> ''helper'' \<in> set vazios
      \<and> sublist ''helper'' (mensagem_erro vazios)"
    by blast
  from C2_empty_methods_rejected [OF 1 2 3, of blocked_storage blocked_storage ?e,
      unfolded dir] blocked
  have b: "synthesize example_synth_world blocked_storage ?d
      = (Raises (FileSystemRaised ?e), blocked_storage)"
    by blast
  from a same b show ?thesis
    by (intro conjI)
qed

section \<open>The synthesis: defaults of optional parameters\<close>





section \<open>The synthesis: fragments that do not parse\<close>

lemma py_slice_window:
  fixes i j :: int
  assumes "0 \<le> i" and "i \<le> j" and "j \<le> int (length xs)"
  shows "length (py_slice xs i j) = nat (j - i)"
    and "k < nat (j - i) \<Longrightarrow> py_slice xs i j ! k = xs ! (nat i + k)"
proof -
  have lo: "slice_bound (length xs) i = nat i"
    using assms by (simp add: slice_bound_def)
  have hi: "slice_bound (length xs) j = nat j"
    using assms by (simp add: slice_bound_def)
  have d: "nat j - nat i = nat (j - i)"
    using assms by linarith
  show "length (py_slice xs i j) = nat (j - i)"
    unfolding py_slice_def Let_def lo hi d using assms by simp
  assume "k < nat (j - i)"
  then show "py_slice xs i j ! k = xs ! (nat i + k)"
    unfolding py_slice_def Let_def lo hi d using assms by simp
qed

lemma contexto_linhas_head:
  "((if i = lineno e then ''>>'' else ''  '') @ '' '' @ format_4d i @ '' | '' @ l)
     \<in> set (contexto_linhas e i (l # ls))"
  by simp

lemma contexto_linhas_tail:
  "set (contexto_linhas e (i + 1) ls) \<subseteq> set (contexto_linhas e i (l # ls))"
  by auto

lemma contexto_linhas_nth:
  fixes e :: syntax_error
  defines "fmt \<equiv> \<lambda>j l. (if j = lineno e then ''>>'' else ''  '') @ '' '' @ format_4d j @
                        '' | '' @ l"
  shows "k < length ctx \<Longrightarrow> fmt (start + int k) (ctx ! k) \<in> set (contexto_linhas e start ctx)"
proof (induction ctx arbitrary: start k)
  case Nil
  then show ?case by simp
next
  case (Cons linha ctx)
  show ?case
  proof (cases k)
    case 0
    have "fmt start linha \<in> set (contexto_linhas e start (linha # ctx))"
      unfolding fmt_def by (rule contexto_linhas_head)
    with 0 show ?thesis
      by simp
  next
    case (Suc k')
    with Cons.prems have "k' < length ctx"
      by simp
    from Cons.IH [OF this, of "start + 1"]
    have "fmt (start + 1 + int k') (ctx ! k') \<in> set (contexto_linhas e (start + 1) ctx)" .
    then have "fmt (start + 1 + int k') (ctx ! k') \<in> set (contexto_linhas e start (linha # ctx))"
      using contexto_linhas_tail by blast
    moreover have "start + 1 + int k' = start + int k"
      using Suc by simp
    moreover have "(linha # ctx) ! k = ctx ! k'"
      using Suc by simp
    ultimately show ?thesis
      by (simp only:)
  qed
qed

lemma parse_all_stops:
  assumes "\<forall>m \<in> set ok. \<exists>s ss. parse m = Module (s # ss)"
    and "parse bad = SyntaxErr e"
  shows "parse_all parse (ok @ bad # rest) = Inl (ParserSyntaxError e)"
  using assms
proof (induction ok)
  case Nil
  then show ?case by (simp add: parse_first_def)
next
  case (Cons m ok)
  then obtain s ss where "parse m = Module (s # ss)"
    by auto
  with Cons show ?case
    by (simp add: parse_first_def)
qed

lemma erro_detalhado_context:
  fixes i :: int
  assumes "max 0 (lineno e - 4) < i"
    and "i \<le> min (int (length (split_on CHR ''\<newline>'' code))) (lineno e + 3)"
  shows "((if i = lineno e then ''>>'' else ''  '') @ '' '' @ format_4d i @ '' | '' @
            split_on CHR ''\<newline>'' code ! nat (i - 1)) \<in> set (erro_detalhado d code e)"
proof -
  let ?ls = "split_on CHR ''\<newline>'' code"
  let ?inicio = "max 0 (lineno e - 4)"
  let ?fim = "min (int (length ?ls)) (lineno e + 3)"
  let ?ctx = "py_slice ?ls ?inicio ?fim"
  have b: "0 \<le> ?inicio" "?inicio \<le> ?fim" "?fim \<le> int (length ?ls)"
    using assms by simp_all
  let ?k = "nat (i - ?inicio - 1)"
  have k: "?k < nat (?fim - ?inicio)"
    using assms by linarith
  have len: "length ?ctx = nat (?fim - ?inicio)"
    using b by (rule py_slice_window(1))
  have nth: "?ctx ! ?k = ?ls ! (nat ?inicio + ?k)"
    using b k by (rule py_slice_window(2))
  have idx: "nat ?inicio + ?k = nat (i - 1)"
    using assms by linarith
  have st: "?inicio + 1 + int ?k = i"
    using assms by linarith
  from k len have "?k < length ?ctx"
    by simp
  from contexto_linhas_nth [OF this, of "?inicio + 1" e]
  have "((if i = lineno e then ''>>'' else ''  '') @ '' '' @ format_4d i @ '' | '' @
          ?ls ! nat (i - 1)) \<in> set (contexto_linhas e (?inicio + 1) ?ctx)"
    unfolding st nth idx .
  then show ?thesis
    by (simp add: erro_detalhado_def Let_def)
qed

lemma erro_detalhado_line: "(''Linha: '' @ str_int (lineno e)) \<in> set (erro_detalhado d code e)"
  by (simp add: erro_detalhado_def Let_def)

lemma erro_detalhado_instrucoes: "suffix (instrucoes d) (erro_detalhado d code e)"
  unfolding erro_detalhado_def Let_def suffix_def by (metis append_assoc)

lemma parse_all_ok:
  assumes "\<forall>m \<in> set ms. \<exists>s ss. parse m = Module (s # ss)"
  shows "\<exists>stmts. parse_all parse ms = Inr stmts"
  using assms
proof (induction ms)
  case Nil
  then show ?case by simp
next
  case (Cons m ms)
  then obtain s ss stmts where "parse m = Module (s # ss)" and "parse_all parse ms = Inr stmts"
    by auto
  then show ?case
    by (simp add: parse_first_def)
qed

lemma unique_imports_subset: "set (unique_imports seen imps) \<subseteq> set imps"
  by (induction imps arbitrary: seen) auto

lemma add_imports_ok:
  assumes "\<forall>imp \<in> set (standard_imports @ td_imports d). \<exists>s ss. parse imp = Module (s # ss)"
  shows "\<exists>head. add_imports parse d = Inr head"
proof -
  from assms unique_imports_subset [of "[]" "standard_imports @ td_imports d"]
  have "\<forall>imp \<in> set (unique_imports [] (standard_imports @ td_imports d)).
          \<exists>s ss. parse imp = Module (s # ss)"
    by blast
  from parse_all_ok [OF this] show ?thesis
    by (auto simp add: add_imports_def)
qed

lemma synthesize_raises:
  assumes "fs_mkdir w (path_text (tools_dir (synth_unicode_lower w) (td_name d))) fs = (None, fs1)"
    and "verificar_metodos_vazios (frag_parse w) (td_custom_methods d) = Inr []"
    and "add_imports (frag_parse w) d = Inr head"
    and "create_tool_class (frag_parse w) d = Inl err"
  shows "synthesize w fs d = (Raises err, fs1)"
  using assms by (simp add: synthesize_def build_and_write_def build_tree_def)

text \<open>
  C9, as stated: a custom method that does not parse makes the synthesis fail with an
  error that carries the line number, the lines around the error and a hint. The custom
  methods are parsed in \<open>create_tool_class\<close> with no handler: for the method header
  without its colon, the synthesis raises the \<open>SyntaxError\<close> of the parser as it is, and
  not the error with the text that \<open>_create_run_method\<close> builds.
\<close>

theorem C9_custom_method_counterexample:
  "create_tool_class example_parse (log_analyzer [broken_method])
     = Inl (ParserSyntaxError \<lparr>lineno = 1, offset = 24, msg = (''expected ':'' @ [CHR 0x27])\<rparr>)
   \<and> fst (synthesize example_synth_world empty_storage (log_analyzer [broken_method]))
     = Raises (ParserSyntaxError \<lparr>lineno = 1, offset = 24, msg = (''expected ':'' @ [CHR 0x27])\<rparr>)
   \<and> fst (synthesize example_synth_world empty_storage (log_analyzer [broken_method]))
     \<noteq> Raises (FormattedSyntaxError
                 (join ''\<newline>''
                    (erro_detalhado (log_analyzer [broken_method]) broken_method
                       \<lparr>lineno = 1, offset = 24, msg = (''expected ':'' @ [CHR 0x27])\<rparr>)))"
  by code_simp

text \<open>
  C9, amended. Let the directory of the tool be created without an exception, let no
  custom method be an empty one and let every import line parse.

  If every custom method parses and the implementation, stripped of the white space
  around it, does not parse, the synthesis raises a \<open>SyntaxError\<close> whose text is the lines
  of \<open>erro_detalhado\<close> joined by newlines. Among these lines are the line \<open>Linha: n\<close> with
  the line number \<open>n\<close> of the error in the stripped implementation, and, for every line
  number from \<open>n - 3\<close> to \<open>n + 3\<close> that the implementation has, that line of the
  implementation after its number, marked with \<open>>>\<close> when it is line \<open>n\<close>. The lines end
  with the instructions, which are the same for every error: they are fixed by the names
  of the parameters alone.

  If a custom method does not parse, and the custom methods before it parse, the
  synthesis raises the \<open>SyntaxError\<close> of the parser for that method, unchanged.

  In both cases no file is written: the file system is left as the creation of the
  directory left it.
\<close>

theorem C9_syntax_error_of_fragment:
  fixes i :: int
  assumes "fs_mkdir w (path_text (tools_dir (synth_unicode_lower w) (td_name d))) fs = (None, fs1)"
    and "verificar_metodos_vazios (frag_parse w) (td_custom_methods d) = Inr []"
    and "\<forall>imp \<in> set (standard_imports @ td_imports d).
           \<exists>s ss. frag_parse w imp = Module (s # ss)"
  shows "((\<forall>m \<in> set (td_custom_methods d). \<exists>s ss. frag_parse w m = Module (s # ss))
          \<and> frag_parse w (strip (td_implementation d)) = SyntaxErr e
          \<longrightarrow> synthesize w fs d
                = (Raises (FormattedSyntaxError
                     (join ''\<newline>'' (erro_detalhado d (strip (td_implementation d)) e))), fs1)
              \<and> (''Linha: '' @ str_int (lineno e))
                  \<in> set (erro_detalhado d (strip (td_implementation d)) e)
              \<and> (max 0 (lineno e - 4) < i
                  \<and> i \<le> min (int (length (split_on CHR ''\<newline>'' (strip (td_implementation d)))))
                           (lineno e + 3)
                  \<longrightarrow> ((if i = lineno e then ''>>'' else ''  '') @ '' '' @ format_4d i @ '' | '' @
                         split_on CHR ''\<newline>'' (strip (td_implementation d)) ! nat (i - 1))
                        \<in> set (erro_detalhado d (strip (td_implementation d)) e))
              \<and> suffix (instrucoes d) (erro_detalhado d (strip (td_implementation d)) e))
     \<and> (td_custom_methods d = ok @ bad # rest
          \<and> (\<forall>m \<in> set ok. \<exists>s ss. frag_parse w m = Module (s # ss))
          \<and> frag_parse w bad = SyntaxErr e'
          \<longrightarrow> synthesize w fs d = (Raises (ParserSyntaxError e'), fs1))"
proof -
  from add_imports_ok [OF assms(3)] obtain head
    where head: "add_imports (frag_parse w) d = Inr head"
    by blast
  let ?code = "strip (td_implementation d)"
  have body: "synthesize w fs d
      = (Raises (FormattedSyntaxError (join ''\<newline>'' (erro_detalhado d ?code e))), fs1)"
    if ok: "\<forall>m \<in> set (td_custom_methods d). \<exists>s ss. frag_parse w m = Module (s # ss)"
      and bad: "frag_parse w ?code = SyntaxErr e"
  proof -
    from parse_all_ok [OF ok] obtain methods
      where "parse_all (frag_parse w) (td_custom_methods d) = Inr methods"
      by blast
    with bad have "create_tool_class (frag_parse w) d
        = Inl (FormattedSyntaxError (join ''\<newline>'' (erro_detalhado d ?code e)))"
      by (simp add: create_tool_class_def create_run_method_def Let_def)
    with assms(1,2) head show ?thesis
      by (rule synthesize_raises)
  qed
  have custom: "synthesize w fs d = (Raises (ParserSyntaxError e'), fs1)"
    if cm: "td_custom_methods d = ok @ bad # rest"
      and ok: "\<forall>m \<in> set ok. \<exists>s ss. frag_parse w m = Module (s # ss)"
      and bad: "frag_parse w bad = SyntaxErr e'"
  proof -
    from parse_all_stops [OF ok bad, of rest]
    have "create_tool_class (frag_parse w) d = Inl (ParserSyntaxError e')"
      by (simp add: create_tool_class_def cm Let_def)
    with assms(1,2) head show ?thesis
      by (rule synthesize_raises)
  qed
  from body custom erro_detalhado_line [of e d ?code]
    erro_detalhado_context [of e i ?code d] erro_detalhado_instrucoes [of d ?code e]
  show ?thesis
    by blast
qed

theorem C9_syntax_error_of_fragment_witness:
  "synthesize example_synth_world empty_storage broken_body_tool
     = (Raises (FormattedSyntaxError
          (join ''\<newline>''
             (erro_detalhado broken_body_tool broken_body
                \<lparr>lineno = 2, offset = 8, msg = (''expected ':'' @ [CHR 0x27])\<rparr>))),
        snd (example_mkdir ''crews/pdca/tools/loganalyzer_tool'' empty_storage))
   \<and> ''Linha: 2''
       \<in> set (erro_detalhado broken_body_tool broken_body
                \<lparr>lineno = 2, offset = 8, msg = (''expected ':'' @ [CHR 0x27])\<rparr>)
   \<and> ''>>    2 | if data''
       \<in> set (erro_detalhado broken_body_tool broken_body
                \<lparr>lineno = 2, offset = 8, msg = (''expected ':'' @ [CHR 0x27])\<rparr>)
   \<and> (''      4 | return 'empty'' @ [CHR 0x27])
       \<in> set (erro_detalhado broken_body_tool broken_body
                \<lparr>lineno = 2, offset = 8, msg = (''expected ':'' @ [CHR 0x27])\<rparr>)
   \<and> suffix (instrucoes broken_body_tool)
        (erro_detalhado broken_body_tool broken_body
           \<lparr>lineno = 2, offset = 8, msg = (''expected ':'' @ [CHR 0x27])\<rparr>)
   \<and> synthesize example_synth_world empty_storage (log_analyzer [process_method, broken_method])
     = (Raises (ParserSyntaxError \<lparr>lineno = 1, offset = 24, msg = (''expected ':'' @ [CHR 0x27])\<rparr>),
        snd (example_mkdir ''crews/pdca/tools/loganalyzer_tool'' empty_storage))"
proof -
  let ?e = "\<lparr>lineno = 2, offset = 8, msg = (''expected ':'' @ [CHR 0x27])\<rparr>"
  let ?e' = "\<lparr>lineno = 1, offset = 24, msg = (''expected ':'' @ [CHR 0x27])\<rparr>"
  let ?d = "log_analyzer [process_method, broken_method]"
  let ?dir = "''crews/pdca/tools/loganalyzer_tool''"
  let ?fs1 = "snd (example_mkdir ?dir empty_storage)"
  have fp: "frag_parse example_synth_world = example_parse"
    by (simp add: example_synth_world_def)
  have impl: "strip (td_implementation broken_body_tool) = broken_body"
    by code_simp
  have dir1: "path_text (tools_dir (synth_unicode_lower example_synth_world)
      (td_name broken_body_tool)) = ?dir"
    by code_simp
  have dir2: "path_text (tools_dir (synth_unicode_lower example_synth_world) (td_name ?d)) = ?dir"
    by code_simp
  have mk: "fs_mkdir example_synth_world ?dir empty_storage = (None, ?fs1)"
    by (simp add: example_synth_world_def example_mkdir_def empty_storage_def)
  have mk1: "fs_mkdir example_synth_world
      (path_text (tools_dir (synth_unicode_lower example_synth_world) (td_name broken_body_tool)))
      empty_storage = (None, ?fs1)"
    unfolding dir1 by (rule mk)
  have mk2: "fs_mkdir example_synth_world
      (path_text (tools_dir (synth_unicode_lower example_synth_world) (td_name ?d)))
      empty_storage = (None, ?fs1)"
    unfolding dir2 by (rule mk)
  have v1: "verificar_metodos_vazios (frag_parse example_synth_world)
      (td_custom_methods broken_body_tool) = Inr []"
    unfolding fp by code_simp
  have i1: "\<forall>imp \<in> set (standard_imports @ td_imports broken_body_tool).
      \<exists>s ss. frag_parse example_synth_world imp = Module (s # ss)"
    unfolding fp by (simp add: broken_body_tool_def log_analyzer_def example_parse_def)
  have m1: "\<forall>m \<in> set (td_custom_methods broken_body_tool).
      \<exists>s ss. frag_parse example_synth_world m = Module (s # ss)"
    unfolding fp by (simp add: broken_body_tool_def log_analyzer_def example_parse_def)
  have b1: "frag_parse example_synth_world (strip (td_implementation broken_body_tool))
      = SyntaxErr ?e"
    unfolding fp impl by code_simp
  have v2: "verificar_metodos_vazios (frag_parse example_synth_world) (td_custom_methods ?d)
      = Inr []"
    unfolding fp by code_simp
  have i2: "\<forall>imp \<in> set (standard_imports @ td_imports ?d).
      \<exists>s ss. frag_parse example_synth_world imp = Module (s # ss)"
    unfolding fp by (simp add: log_analyzer_def example_parse_def)
  have c2: "td_custom_methods ?d = [process_method] @ broken_method # []"
    by (simp add: log_analyzer_def)
  have m2: "\<forall>m \<in> set [process_method]. \<exists>s ss. frag_parse example_synth_world m = Module (s # ss)"
    unfolding fp by (simp add: example_parse_def)
  have b2: "frag_parse example_synth_world broken_method = SyntaxErr ?e'"
    unfolding fp by code_simp
  have n2: "str_int (lineno ?e) = ''2''"
    by code_simp
  have r2: "max 0 (lineno ?e - 4) < 2
      \<and> 2 \<le> min (int (length (split_on CHR ''\<newline>'' broken_body))) (lineno ?e + 3)"
    by code_simp
  have l2: "(if 2 = lineno ?e then ''>>'' else ''  '') @ '' '' @ format_4d 2 @ '' | '' @
      split_on CHR ''\<newline>'' broken_body ! nat (2 - 1) = ''>>    2 | if data''"
    by code_simp
  have r4: "max 0 (lineno ?e - 4) < 4
      \<and> 4 \<le> min (int (length (split_on CHR ''\<newline>'' broken_body))) (lineno ?e + 3)"
    by code_simp
  have l4: "(if 4 = lineno ?e then ''>>'' else ''  '') @ '' '' @ format_4d 4 @ '' | '' @
      split_on CHR ''\<newline>'' broken_body ! nat (4 - 1) = (''      4 | return 'empty'' @ [CHR 0x27])"
    by code_simp
  note at2 = C9_syntax_error_of_fragment [OF mk1 v1 i1,
      where e = ?e and i = 2, unfolded impl]
  note at4 = C9_syntax_error_of_fragment [OF mk1 v1 i1,
      where e = ?e and i = 4, unfolded impl]
  note aux = C9_syntax_error_of_fragment [OF mk2 v2 i2,
      where ok = "[process_method]" and bad = broken_method and rest = "[]" and e' = ?e']
  from at2 m1 b1 [unfolded impl] r2
  have A: "synthesize example_synth_world empty_storage broken_body_tool
      = (Raises (FormattedSyntaxError
           (join ''\<newline>'' (erro_detalhado broken_body_tool broken_body ?e))), ?fs1)"
    and B: "(''Linha: '' @ str_int (lineno ?e)) \<in> set (erro_detalhado broken_body_tool broken_body ?e)"
    and C: "((if 2 = lineno ?e then ''>>'' else ''  '') @ '' '' @ format_4d 2 @ '' | '' @
      split_on CHR ''\<newline>'' broken_body ! nat (2 - 1))
        \<in> set (erro_detalhado broken_body_tool broken_body ?e)"
    and D: "suffix (instrucoes broken_body_tool) (erro_detalhado broken_body_tool broken_body ?e)"
    by blast+
  from at4 m1 b1 [unfolded impl] r4
  have E: "((if 4 = lineno ?e then ''>>'' else ''  '') @ '' '' @ format_4d 4 @ '' | '' @
      split_on CHR ''\<newline>'' broken_body ! nat (4 - 1))
        \<in> set (erro_detalhado broken_body_tool broken_body ?e)"
    by blast
  from aux c2 m2 b2
  have F: "synthesize example_synth_world empty_storage ?d = (Raises (ParserSyntaxError ?e'), ?fs1)"
    by blast
  have B': "''Linha: 2'' \<in> set (erro_detalhado broken_body_tool broken_body ?e)"
    using B unfolding n2 by simp
  from A B' C [unfolded l2] D E [unfolded l4] F show ?thesis
    by (intro conjI)
qed

end
